theory Spec2Isabelle
  imports Complex_Main "HOL-Library.Word"
begin

section \<open>The OpenAL sound output of OpenMW (apps/openmw/mwsound/openal\_output.cpp)\<close>

text \<open>
  A shallow embedding of \<^verbatim>\<open>openal_output.cpp\<close>: the format table, the streaming
  sound, the one-shot sound and the output device. C++ exceptions are values of a sum
  type; a function that can throw returns the exception (\<open>Inl\<close>) or its result
  (\<open>Inr\<close>) together with the state at that moment, since the \<^verbatim>\<open>catch\<close> blocks
  of the source go on from the state the \<^verbatim>\<open>throw\<close> left.
\<close>

subsection \<open>Exceptions\<close>

datatype exn =
    Runtime_error string  \<comment> \<open>\<^verbatim>\<open>std::runtime_error(what)\<close>\<close>
  | Length_error          \<comment> \<open>\<^verbatim>\<open>std::length_error\<close> of \<^verbatim>\<open>std::vector::resize\<close>\<close>

text \<open>\<^verbatim>\<open>static void fail(const std::string &msg)\<close>: always throws.\<close>

definition fail :: "string \<Rightarrow> exn" where
  "fail msg = Runtime_error (''OpenAL exception: '' @ msg)"

subsection \<open>Format negotiation\<close>

text \<open>
  Modelled from the spec: the enumerations \<^verbatim>\<open>ChannelConfig\<close> and
  \<^verbatim>\<open>SampleType\<close> are declared in \<^verbatim>\<open>sound_decoder.hpp\<close>, which is not among the
  sources. The source names the enumerators below; a value of the enumeration that is
  none of them is \<open>ChannelConfig_Other n\<close> (\<open>SampleType_Other n\<close>).
\<close>

datatype ChannelConfig = ChannelConfig_Mono | ChannelConfig_Stereo | ChannelConfig_Other nat

datatype SampleType = SampleType_UInt8 | SampleType_Int16 | SampleType_Other nat

text \<open>
  The free functions of \<^verbatim>\<open>sound_decoder.hpp\<close> that the source calls are not among
  the sources either. They are taken as parameters, bundled in one
  record that every function reaching them receives: the two functions that name an
  enumerator, and \<^verbatim>\<open>framesToBytes\<close>, the size in bytes of a number of sample frames.
\<close>

record sound_decoder_hpp =
  getChannelConfigName :: "ChannelConfig \<Rightarrow> string"
  getSampleTypeName :: "SampleType \<Rightarrow> string"
  framesToBytes :: "nat \<Rightarrow> ChannelConfig \<Rightarrow> SampleType \<Rightarrow> nat"

text \<open>The buffer formats of \<^verbatim>\<open>AL/al.h\<close> that the source names.\<close>

datatype ALformat =
  AL_NONE | AL_FORMAT_MONO8 | AL_FORMAT_MONO16 | AL_FORMAT_STEREO8 | AL_FORMAT_STEREO16

definition fmtlist :: "(ALformat \<times> ChannelConfig \<times> SampleType) list" where
  "fmtlist =
    [ (AL_FORMAT_MONO16,   ChannelConfig_Mono,   SampleType_Int16),
      (AL_FORMAT_MONO8,    ChannelConfig_Mono,   SampleType_UInt8),
      (AL_FORMAT_STEREO16, ChannelConfig_Stereo, SampleType_Int16),
      (AL_FORMAT_STEREO8,  ChannelConfig_Stereo, SampleType_UInt8) ]"

text \<open>The \<^verbatim>\<open>for\<close> loop of \<^verbatim>\<open>getALFormat\<close> over the table: the first entry that matches.\<close>

fun fmtlist_find ::
  "(ALformat \<times> ChannelConfig \<times> SampleType) list \<Rightarrow> ChannelConfig \<Rightarrow> SampleType \<Rightarrow> ALformat option"
where
  "fmtlist_find [] chans type = None"
| "fmtlist_find ((format, c, t) # rest) chans type =
     (if c = chans \<and> t = type then Some format else fmtlist_find rest chans type)"

definition getALFormat :: "sound_decoder_hpp \<Rightarrow> ChannelConfig \<Rightarrow> SampleType \<Rightarrow> exn + ALformat"
where
  "getALFormat h chans type =
     (case fmtlist_find fmtlist chans type of
        Some format \<Rightarrow> Inr format
      | None \<Rightarrow>
          Inl (fail (''Unsupported sound format ('' @ getChannelConfigName h chans @ '', '' @
                     getSampleTypeName h type @ '')'')))"

subsection \<open>The decoder\<close>

text \<open>
  Modelled from the spec: the decoder (\<^verbatim>\<open>Sound_Decoder\<close>, behind \<^verbatim>\<open>DecoderPtr\<close>) is
  not among the sources. The spec gives its interface: \<^verbatim>\<open>getInfo\<close> reports the sample
  rate, the channel layout and the sample type; \<^verbatim>\<open>read(buffer, maxBytes)\<close> returns
  the number of bytes read, 0 signalling exhaustion; \<^verbatim>\<open>rewind\<close> seeks to the start;
  \<^verbatim>\<open>close\<close> closes it. The model is a byte stream with a read position. What
  \<^verbatim>\<open>getInfo\<close> does (an exception or the three values) is a field. \<open>dec_calls\<close>
  records the calls the decoder has served, oldest first.
\<close>

type_synonym byte = "8 word"

datatype dec_call = GetInfo | Read nat | Rewind | Close

record decoder =
  dec_info :: "exn + (int \<times> ChannelConfig \<times> SampleType)"
  dec_data :: "byte list"
  dec_pos :: nat
  dec_calls :: "dec_call list"

definition dec_getInfo :: "decoder \<Rightarrow> (exn + (int \<times> ChannelConfig \<times> SampleType)) \<times> decoder" where
  "dec_getInfo d = (dec_info d, d\<lparr>dec_calls := dec_calls d @ [GetInfo]\<rparr>)"

definition dec_read :: "nat \<Rightarrow> decoder \<Rightarrow> byte list \<times> decoder" where
  "dec_read n d =
     (let got = take n (drop (dec_pos d) (dec_data d))
      in (got, d\<lparr>dec_pos := dec_pos d + length got, dec_calls := dec_calls d @ [Read n]\<rparr>))"

definition dec_rewind :: "decoder \<Rightarrow> decoder" where
  "dec_rewind d = d\<lparr>dec_pos := 0, dec_calls := dec_calls d @ [Rewind]\<rparr>"

definition dec_close :: "decoder \<Rightarrow> decoder" where
  "dec_close d = d\<lparr>dec_calls := dec_calls d @ [Close]\<rparr>"

subsection \<open>The OpenAL library\<close>

text \<open>
  The library is outside the repository. Its state is modelled as far as the source
  reads it back. A voice (a source) has a play state, the queue of its buffers, split into
  the buffers it has finished playing (\<open>processed_q\<close>, oldest first) and the ones still to
  play (\<open>pending_q\<close>), and its parameters. Names of sources and buffers are numbers;
  0 is no buffer.

  Any call of the library may record an error, which the next \<^verbatim>\<open>alGetError\<close> returns
  and clears. The model does not decide which calls fail: \<open>al_errors\<close> lists what the
  coming calls of \<^verbatim>\<open>alGetError\<close> return, in order, and past its end they return
  \<^verbatim>\<open>AL_NO_ERROR\<close>. A theorem for every \<open>al_errors\<close> holds for every behaviour of the
  library; where no error is reported, every call did what the model says.
\<close>

type_synonym ALuint = nat
type_synonym ALenum = nat
type_synonym ALfloat = real
type_synonym vec3 = "ALfloat \<times> ALfloat \<times> ALfloat"

abbreviation (input) AL_NO_ERROR :: ALenum where "AL_NO_ERROR \<equiv> 0"
abbreviation (input) AL_FALSE :: int where "AL_FALSE \<equiv> 0"
abbreviation (input) AL_TRUE :: int where "AL_TRUE \<equiv> 1"

datatype ALstate = AL_INITIAL | AL_PLAYING | AL_PAUSED | AL_STOPPED

datatype ALparam =
    AL_POSITION | AL_DIRECTION | AL_VELOCITY | AL_ORIENTATION
  | AL_REFERENCE_DISTANCE | AL_MAX_DISTANCE | AL_ROLLOFF_FACTOR | AL_GAIN | AL_PITCH
  | AL_SOURCE_RELATIVE | AL_LOOPING

datatype ALdistance = AL_INVERSE_DISTANCE_CLAMPED | AL_LINEAR_DISTANCE_CLAMPED

record al_source =
  source_state :: ALstate
  processed_q :: "ALuint list"
  pending_q :: "ALuint list"
  source3f :: "ALparam \<Rightarrow> vec3"
  sourcef :: "ALparam \<Rightarrow> ALfloat"
  sourcei :: "ALparam \<Rightarrow> int"

record al_buffer =
  buf_format :: ALformat
  buf_data :: "byte list"
  buf_freq :: int

record al_library =
  al_errors :: "ALenum list"
  al_strings :: "ALenum \<Rightarrow> string"
  sources :: "ALuint \<Rightarrow> al_source"
  buffers :: "ALuint \<rightharpoonup> al_buffer"
  generated :: nat
  listener3f :: "ALparam \<Rightarrow> vec3"
  listenerfv :: "ALparam \<Rightarrow> ALfloat list"
  distance_model :: ALdistance

text \<open>\<^verbatim>\<open>alGetError\<close>: the recorded error, which it clears.\<close>

definition alGetError :: "'a al_library_scheme \<Rightarrow> ALenum \<times> 'a al_library_scheme" where
  "alGetError w =
     (case al_errors w of
        [] \<Rightarrow> (AL_NO_ERROR, w)
      | err # rest \<Rightarrow> (err, w\<lparr>al_errors := rest\<rparr>))"

text \<open>\<^verbatim>\<open>static void throwALerror()\<close>.\<close>

definition throwALerror :: "'a al_library_scheme \<Rightarrow> (exn + unit) \<times> 'a al_library_scheme" where
  "throwALerror w =
     (let (err, w') = alGetError w
      in if err \<noteq> AL_NO_ERROR then (Inl (fail (al_strings w' err)), w') else (Inr (), w'))"

definition on_source ::
  "ALuint \<Rightarrow> (al_source \<Rightarrow> al_source) \<Rightarrow> 'a al_library_scheme \<Rightarrow> 'a al_library_scheme" where
  "on_source src f w = w\<lparr>sources := (sources w)(src := f (sources w src))\<rparr>"

text \<open>
  \<^verbatim>\<open>alSourceStop\<close>: nothing on a source in its initial state; otherwise the source is
  stopped and its whole queue counts as processed.
\<close>

definition alSourceStop :: "ALuint \<Rightarrow> 'a al_library_scheme \<Rightarrow> 'a al_library_scheme" where
  "alSourceStop src =
     on_source src (\<lambda>s. if source_state s = AL_INITIAL then s
                         else s\<lparr>source_state := AL_STOPPED,
                                processed_q := processed_q s @ pending_q s, pending_q := []\<rparr>)"

text \<open>
  \<^verbatim>\<open>alSourcePlay\<close>: a paused source resumes; any other source plays its queue from the
  start.
\<close>

definition alSourcePlay :: "ALuint \<Rightarrow> 'a al_library_scheme \<Rightarrow> 'a al_library_scheme" where
  "alSourcePlay src =
     on_source src (\<lambda>s. if source_state s = AL_PAUSED then s\<lparr>source_state := AL_PLAYING\<rparr>
                         else s\<lparr>source_state := AL_PLAYING,
                                processed_q := [], pending_q := processed_q s @ pending_q s\<rparr>)"

text \<open>\<^verbatim>\<open>alSourcei(src, AL_BUFFER, buf)\<close>: the queue becomes the one buffer, or empty for 0.\<close>

definition alSourcei_AL_BUFFER :: "ALuint \<Rightarrow> ALuint \<Rightarrow> 'a al_library_scheme \<Rightarrow> 'a al_library_scheme"
where
  "alSourcei_AL_BUFFER src buf =
     on_source src (\<lambda>s. s\<lparr>processed_q := [], pending_q := (if buf = 0 then [] else [buf])\<rparr>)"

definition alSourcei :: "ALuint \<Rightarrow> ALparam \<Rightarrow> int \<Rightarrow> 'a al_library_scheme \<Rightarrow> 'a al_library_scheme"
where
  "alSourcei src param v = on_source src (\<lambda>s. s\<lparr>sourcei := (sourcei s)(param := v)\<rparr>)"

definition alSourcef :: "ALuint \<Rightarrow> ALparam \<Rightarrow> ALfloat \<Rightarrow> 'a al_library_scheme \<Rightarrow> 'a al_library_scheme"
where
  "alSourcef src param v = on_source src (\<lambda>s. s\<lparr>sourcef := (sourcef s)(param := v)\<rparr>)"

definition alSource3f ::
  "ALuint \<Rightarrow> ALparam \<Rightarrow> ALfloat \<Rightarrow> ALfloat \<Rightarrow> ALfloat \<Rightarrow> 'a al_library_scheme \<Rightarrow> 'a al_library_scheme"
where
  "alSource3f src param v1 v2 v3 =
     on_source src (\<lambda>s. s\<lparr>source3f := (source3f s)(param := (v1, v2, v3))\<rparr>)"

definition alSourceQueueBuffers ::
  "ALuint \<Rightarrow> ALuint list \<Rightarrow> 'a al_library_scheme \<Rightarrow> 'a al_library_scheme" where
  "alSourceQueueBuffers src bufs = on_source src (\<lambda>s. s\<lparr>pending_q := pending_q s @ bufs\<rparr>)"

text \<open>
  \<^verbatim>\<open>alSourceUnqueueBuffers(src, 1, &bufid)\<close>: takes the oldest processed buffer off the
  queue. With no processed buffer the library writes no name; the model returns 0.
\<close>

definition alSourceUnqueueBuffers ::
  "ALuint \<Rightarrow> 'a al_library_scheme \<Rightarrow> ALuint \<times> 'a al_library_scheme" where
  "alSourceUnqueueBuffers src w =
     (case processed_q (sources w src) of
        [] \<Rightarrow> (0, w)
      | bufid # rest \<Rightarrow> (bufid, on_source src (\<lambda>s. s\<lparr>processed_q := rest\<rparr>) w))"

text \<open>\<^verbatim>\<open>alGetSourcei\<close> for the three values the source asks for.\<close>

definition alGetSourcei_AL_SOURCE_STATE :: "ALuint \<Rightarrow> 'a al_library_scheme \<Rightarrow> ALstate" where
  "alGetSourcei_AL_SOURCE_STATE src w = source_state (sources w src)"

definition alGetSourcei_AL_BUFFERS_PROCESSED :: "ALuint \<Rightarrow> 'a al_library_scheme \<Rightarrow> nat" where
  "alGetSourcei_AL_BUFFERS_PROCESSED src w = length (processed_q (sources w src))"

definition alGetSourcei_AL_BUFFERS_QUEUED :: "ALuint \<Rightarrow> 'a al_library_scheme \<Rightarrow> nat" where
  "alGetSourcei_AL_BUFFERS_QUEUED src w =
     length (processed_q (sources w src)) + length (pending_q (sources w src))"

text \<open>Buffers and sources are created under names never handed out before.\<close>

definition alGenBuffers :: "nat \<Rightarrow> 'a al_library_scheme \<Rightarrow> ALuint list \<times> 'a al_library_scheme" where
  "alGenBuffers n w =
     (let names = [generated w + 1 ..< generated w + 1 + n]
      in (names,
          w\<lparr>buffers := (\<lambda>b. if b \<in> set names
                             then Some \<lparr>buf_format = AL_NONE, buf_data = [], buf_freq = 0\<rparr>
                             else buffers w b),
            generated := generated w + n\<rparr>))"

definition alGenSources :: "'a al_library_scheme \<Rightarrow> ALuint \<times> 'a al_library_scheme" where
  "alGenSources w =
     (let src = generated w + 1
      in (src,
          on_source src (\<lambda>s. s\<lparr>source_state := AL_INITIAL, processed_q := [], pending_q := []\<rparr>)
            (w\<lparr>generated := generated w + 1\<rparr>)))"

definition alBufferData ::
  "ALuint \<Rightarrow> ALformat \<Rightarrow> byte list \<Rightarrow> int \<Rightarrow> 'a al_library_scheme \<Rightarrow> 'a al_library_scheme" where
  "alBufferData bufid format data freq w =
     (if buffers w bufid \<noteq> None
      then w\<lparr>buffers := (buffers w)(bufid \<mapsto>
                \<lparr>buf_format = format, buf_data = data, buf_freq = freq\<rparr>)\<rparr>
      else w)"

definition alDeleteBuffers :: "ALuint list \<Rightarrow> 'a al_library_scheme \<Rightarrow> 'a al_library_scheme" where
  "alDeleteBuffers names w = w\<lparr>buffers := (\<lambda>b. if b \<in> set names then None else buffers w b)\<rparr>"

definition alIsBuffer :: "ALuint \<Rightarrow> 'a al_library_scheme \<Rightarrow> bool" where
  "alIsBuffer buf w = (buf = 0 \<or> buffers w buf \<noteq> None)"

definition alListener3f ::
  "ALparam \<Rightarrow> ALfloat \<Rightarrow> ALfloat \<Rightarrow> ALfloat \<Rightarrow> 'a al_library_scheme \<Rightarrow> 'a al_library_scheme" where
  "alListener3f param v1 v2 v3 w = w\<lparr>listener3f := (listener3f w)(param := (v1, v2, v3))\<rparr>"

definition alListenerfv :: "ALparam \<Rightarrow> ALfloat list \<Rightarrow> 'a al_library_scheme \<Rightarrow> 'a al_library_scheme"
where
  "alListenerfv param vs w = w\<lparr>listenerfv := (listenerfv w)(param := vs)\<rparr>"

definition alDistanceModel :: "ALdistance \<Rightarrow> 'a al_library_scheme \<Rightarrow> 'a al_library_scheme" where
  "alDistanceModel m w = w\<lparr>distance_model := m\<rparr>"

subsection \<open>The output device and the stream thread's registry\<close>

text \<open>
  What \<^verbatim>\<open>alcOpenDevice\<close> returns when it succeeds: the device as far as \<^verbatim>\<open>init\<close>
  asks it. \<^verbatim>\<open>ALCint\<close> is a 32-bit signed integer. \<open>alc_errors\<close> lists what the coming
  calls of \<^verbatim>\<open>alcGetError\<close> return, as \<open>al_errors\<close> does.
\<close>

record ALCdevice =
  alc_device_specifier :: string
  alc_create_context :: bool
  alc_make_current :: bool
  alc_mono_sources :: "32 word"
  alc_stereo_sources :: "32 word"
  alc_errors :: "ALenum list"
  alc_strings :: "ALenum \<Rightarrow> string"

text \<open>
  The members of \<^verbatim>\<open>OpenAL_Output\<close>, on top of the state of the library the object
  talks to. \<open>mContext\<close> is whether the context pointer is set. \<open>mStreams\<close> is the vector
  of \<^verbatim>\<open>mStreamThread\<close>: the addresses of the registered streams. \<open>mManager\<close> stands
  for \<^verbatim>\<open>mManager.getDecoder()\<close> followed by \<^verbatim>\<open>decoder->open(fname)\<close>: the
  exception \<^verbatim>\<open>open\<close> throws for a file name, or the opened decoder.
\<close>

record OpenAL_Output = al_library +
  mDevice :: "ALCdevice option"
  mContext :: bool
  mFreeSources :: "ALuint list"
  mStreams :: "nat list"
  mManager :: "string \<Rightarrow> exn + decoder"

text \<open>\<^verbatim>\<open>StreamThread::add\<close> and \<^verbatim>\<open>StreamThread::remove\<close> (the mutex is not modelled).\<close>

definition StreamThread_add :: "nat \<Rightarrow> OpenAL_Output \<Rightarrow> OpenAL_Output" where
  "StreamThread_add stream out =
     (if stream \<notin> set (mStreams out) then out\<lparr>mStreams := mStreams out @ [stream]\<rparr> else out)"

definition StreamThread_remove :: "nat \<Rightarrow> OpenAL_Output \<Rightarrow> OpenAL_Output" where
  "StreamThread_remove stream out = out\<lparr>mStreams := remove1 stream (mStreams out)\<rparr>"

subsection \<open>The streaming sound\<close>

definition sNumBuffers :: nat where
  "sNumBuffers = 6"

text \<open>
  The members of \<^verbatim>\<open>OpenAL_SoundStream\<close>; \<^verbatim>\<open>mOutput\<close> is the output passed to every
  method. The decoder is held by value: the sound is its only user.
\<close>

record OpenAL_SoundStream =
  mSource :: ALuint
  mBuffers :: "ALuint list"
  mFormat :: ALformat
  mSampleRate :: int
  mBufferSize :: nat
  mDecoder :: decoder
  mIsFinished :: bool

text \<open>
  The constructor computes \<^verbatim>\<open>static_cast<ALuint>(sBufferLength*srate)\<close> with
  \<^verbatim>\<open>sBufferLength = 0.125f\<close> in single precision. The product converts the
  \<^verbatim>\<open>int\<close> to \<^verbatim>\<open>float\<close> first: the nearest number with 24 significant bits, a tie
  going to the one whose last bit is 0. That number is an integer, and \<open>to_float\<close> gives
  it. \<open>bit_length\<close> is the number of bits of a natural number.
\<close>

fun bit_length :: "nat \<Rightarrow> nat" where
  "bit_length n = (if n = 0 then 0 else Suc (bit_length (n div 2)))"

declare bit_length.simps [simp del]

definition to_float :: "int \<Rightarrow> int" where
  "to_float n =
     (let a = nat \<bar>n\<bar>
      in if a < 2 ^ 24 then n
         else
           let e = bit_length a - 24;
               q = a div 2 ^ e;
               rest = a mod 2 ^ e;
               q' = (if 2 ^ e < 2 * rest \<or> (2 * rest = 2 ^ e \<and> odd q) then q + 1 else q)
           in sgn n * int (q' * 2 ^ e))"

text \<open>
  The multiplication by 0.125 is exact, and the conversion to \<^verbatim>\<open>ALuint\<close> cuts the
  fraction off, towards zero. For a negative number C++ leaves the conversion undefined;
  the model takes the number modulo \<open>2^32\<close>, as the conversion through a 64-bit integer
  does (\<open>- 8\<close> gives 4294967295).
\<close>

definition buffer_frames :: "int \<Rightarrow> nat" where
  "buffer_frames srate =
     (let f = to_float srate
      in if 0 \<le> f then nat (f div 8) mod 2 ^ 32
         else nat ((- ((- f) div 8)) mod 2 ^ 32))"

text \<open>
  The constructor. The result of \<^verbatim>\<open>framesToBytes\<close> is stored in an \<^verbatim>\<open>ALuint\<close>, so
  modulo \<open>2^32\<close>. An exception of the \<^verbatim>\<open>try\<close> block runs the handler: the source goes
  back to the free list, the buffers are deleted, the error state is drained, and the
  exception is thrown again.
\<close>

definition OpenAL_SoundStream_new ::
  "sound_decoder_hpp \<Rightarrow> ALuint \<Rightarrow> decoder \<Rightarrow> OpenAL_Output \<Rightarrow> (exn + OpenAL_SoundStream) \<times> OpenAL_Output"
where
  "OpenAL_SoundStream_new h src decoder out =
     (case throwALerror out of
        (Inl e, out1) \<Rightarrow> (Inl e, out1)
      | (Inr _, out1) \<Rightarrow>
          let (bufs, out2) = alGenBuffers sNumBuffers out1
          in case throwALerror out2 of
               (Inl e, out3) \<Rightarrow> (Inl e, out3)
             | (Inr _, out3) \<Rightarrow>
                 let (info, decoder1) = dec_getInfo decoder;
                     tried =
                       (case info of
                          Inl e \<Rightarrow> Inl e
                        | Inr (srate, chans, type) \<Rightarrow>
                            (case getALFormat h chans type of
                               Inl e \<Rightarrow> Inl e
                             | Inr format \<Rightarrow>
                                 Inr \<lparr>mSource = src, mBuffers = bufs, mFormat = format,
                                      mSampleRate = srate,
                                      mBufferSize =
                                        framesToBytes h (buffer_frames srate) chans type mod 2 ^ 32,
                                      mDecoder = decoder1, mIsFinished = True\<rparr>))
                 in case tried of
                      Inr sound \<Rightarrow> (Inr sound, out3)
                    | Inl e \<Rightarrow>
                        let out4 = out3\<lparr>mFreeSources := mFreeSources out3 @ [src]\<rparr>;
                            out5 = alDeleteBuffers bufs out4;
                            (_, out6) = alGetError out5
                        in (Inl e, out6))"

text \<open>
  The destructor; \<open>this\<close> is the address of the object. It returns the output and the
  sound with its decoder closed.
\<close>

definition OpenAL_SoundStream_delete ::
  "nat \<Rightarrow> OpenAL_SoundStream \<Rightarrow> OpenAL_Output \<Rightarrow> OpenAL_SoundStream \<times> OpenAL_Output" where
  "OpenAL_SoundStream_delete this sound out =
     (let out1 = StreamThread_remove this out;
          out2 = alSourceStop (mSource sound) out1;
          out3 = alSourcei_AL_BUFFER (mSource sound) 0 out2;
          out4 = out3\<lparr>mFreeSources := mFreeSources out3 @ [mSource sound]\<rparr>;
          out5 = alDeleteBuffers (mBuffers sound) out4;
          (_, out6) = alGetError out5
      in (sound\<lparr>mDecoder := dec_close (mDecoder sound)\<rparr>, out6))"

text \<open>
  The \<^verbatim>\<open>for\<close> loop of \<^verbatim>\<open>play\<close>: the buffers of the array \<^verbatim>\<open>mBuffers\<close> in order,
  each given what one read of the decoder returns.
\<close>

fun play_fill ::
  "ALuint list \<Rightarrow> OpenAL_SoundStream \<Rightarrow> OpenAL_Output \<Rightarrow> OpenAL_SoundStream \<times> OpenAL_Output" where
  "play_fill [] sound out = (sound, out)"
| "play_fill (buf # bufs) sound out =
     (let (got, decoder1) = dec_read (mBufferSize sound) (mDecoder sound);
          out1 = alBufferData buf (mFormat sound) got (mSampleRate sound) out
      in play_fill bufs (sound\<lparr>mDecoder := decoder1\<rparr>) out1)"

definition play ::
  "nat \<Rightarrow> OpenAL_SoundStream \<Rightarrow> OpenAL_Output \<Rightarrow> (exn + unit) \<times> OpenAL_SoundStream \<times> OpenAL_Output"
where
  "play this sound out =
     (let out1 = alSourceStop (mSource sound) out;
          out2 = alSourcei_AL_BUFFER (mSource sound) 0 out1
      in case throwALerror out2 of
           (Inl e, out3) \<Rightarrow> (Inl e, sound, out3)
         | (Inr _, out3) \<Rightarrow>
             let (sound1, out4) = play_fill (mBuffers sound) sound out3
             in case throwALerror out4 of
                  (Inl e, out5) \<Rightarrow> (Inl e, sound1, out5)
                | (Inr _, out5) \<Rightarrow>
                    let out6 = alSourceQueueBuffers (mSource sound1) (mBuffers sound1) out5;
                        out7 = alSourcePlay (mSource sound1) out6
                    in case throwALerror out7 of
                         (Inl e, out8) \<Rightarrow> (Inl e, sound1, out8)
                       | (Inr _, out8) \<Rightarrow>
                           (Inr (), sound1\<lparr>mIsFinished := False\<rparr>, StreamThread_add this out8))"

definition stop ::
  "nat \<Rightarrow> OpenAL_SoundStream \<Rightarrow> OpenAL_Output \<Rightarrow> (exn + unit) \<times> OpenAL_SoundStream \<times> OpenAL_Output"
where
  "stop this sound out =
     (let out1 = StreamThread_remove this out;
          sound1 = sound\<lparr>mIsFinished := True\<rparr>;
          out2 = alSourceStop (mSource sound1) out1;
          out3 = alSourcei_AL_BUFFER (mSource sound1) 0 out2
      in case throwALerror out3 of
           (Inl e, out4) \<Rightarrow> (Inl e, sound1, out4)
         | (Inr _, out4) \<Rightarrow> (Inr (), sound1\<lparr>mDecoder := dec_rewind (mDecoder sound1)\<rparr>, out4))"

definition isPlaying :: "OpenAL_SoundStream \<Rightarrow> OpenAL_Output \<Rightarrow> (exn + bool) \<times> OpenAL_Output" where
  "isPlaying sound out =
     (let state = alGetSourcei_AL_SOURCE_STATE (mSource sound) out
      in case throwALerror out of
           (Inl e, out1) \<Rightarrow> (Inl e, out1)
         | (Inr _, out1) \<Rightarrow>
             if state = AL_PLAYING then (Inr True, out1)
             else (Inr (\<not> mIsFinished sound), out1))"

text \<open>\<^verbatim>\<open>update(const float *pos)\<close>; the three floats \<^verbatim>\<open>pos[0]\<close>, \<^verbatim>\<open>pos[1]\<close>, \<^verbatim>\<open>pos[2]\<close>.\<close>

definition update :: "OpenAL_SoundStream \<Rightarrow> vec3 \<Rightarrow> OpenAL_Output \<Rightarrow> (exn + unit) \<times> OpenAL_Output" where
  "update sound pos out =
     (case pos of (pos0, pos1, pos2) \<Rightarrow>
        let out1 = alSource3f (mSource sound) AL_POSITION pos0 pos2 (- pos1) out;
            out2 = alSource3f (mSource sound) AL_DIRECTION 0 0 0 out1;
            out3 = alSource3f (mSource sound) AL_VELOCITY 0 0 0 out2
        in throwALerror out3)"

text \<open>
  The body of the \<^verbatim>\<open>do\<close> loop of \<^verbatim>\<open>process\<close>, for one finished buffer: unqueue it;
  when the sound is finished, nothing more (\<^verbatim>\<open>continue\<close>); otherwise one read of the
  decoder, a short read sets \<^verbatim>\<open>mIsFinished\<close>, and a read that got anything refills the
  buffer and queues it again.
\<close>

definition process_buffer ::
  "OpenAL_SoundStream \<Rightarrow> OpenAL_Output \<Rightarrow> OpenAL_SoundStream \<times> OpenAL_Output" where
  "process_buffer sound out =
     (let (bufid, out1) = alSourceUnqueueBuffers (mSource sound) out
      in if mIsFinished sound then (sound, out1)
         else
           let (got, decoder1) = dec_read (mBufferSize sound) (mDecoder sound);
               sound1 = sound\<lparr>mDecoder := decoder1,
                              mIsFinished := (length got < mBufferSize sound)\<rparr>
           in if length got > 0
              then
                let out2 = alBufferData bufid (mFormat sound1) got (mSampleRate sound1) out1;
                    out3 = alSourceQueueBuffers (mSource sound1) [bufid] out2
                in (sound1, out3)
              else (sound1, out1))"

text \<open>
  The \<^verbatim>\<open>do ... while(processed > 0)\<close> loop, entered with \<^verbatim>\<open>processed > 0\<close>: the body
  runs once for each buffer the library reported as processed.
\<close>

fun process_loop ::
  "nat \<Rightarrow> OpenAL_SoundStream \<Rightarrow> OpenAL_Output \<Rightarrow> OpenAL_SoundStream \<times> OpenAL_Output" where
  "process_loop 0 sound out = (sound, out)"
| "process_loop (Suc processed) sound out =
     (let (sound1, out1) = process_buffer sound out
      in process_loop processed sound1 out1)"

text \<open>The first half of \<^verbatim>\<open>process\<close>: \<^verbatim>\<open>if(processed > 0) { ... throwALerror(); }\<close>.\<close>

definition process_refill ::
  "nat \<Rightarrow> OpenAL_SoundStream \<Rightarrow> OpenAL_Output \<Rightarrow> (exn + unit) \<times> OpenAL_SoundStream \<times> OpenAL_Output"
where
  "process_refill processed sound out =
     (if processed > 0
      then
        let (sound1, out1) = process_loop processed sound out;
            (r, out2) = throwALerror out1
        in (r, sound1, out2)
      else (Inr (), sound, out))"

text \<open>
  The second half: \<^verbatim>\<open>if(state != AL_PLAYING && state != AL_PAUSED) { ... }\<close>, with the
  state read at the start of \<^verbatim>\<open>process\<close>.
\<close>

definition process_restart ::
  "ALstate \<Rightarrow> OpenAL_SoundStream \<Rightarrow> OpenAL_Output \<Rightarrow> (exn + unit) \<times> OpenAL_Output" where
  "process_restart state sound out =
     (if state \<noteq> AL_PLAYING \<and> state \<noteq> AL_PAUSED
      then
        let queued = alGetSourcei_AL_BUFFERS_QUEUED (mSource sound) out
        in case throwALerror out of
             (Inl e, out1) \<Rightarrow> (Inl e, out1)
           | (Inr _, out1) \<Rightarrow>
               if queued > 0
               then throwALerror (alSourcePlay (mSource sound) out1)
               else (Inr (), out1)
      else (Inr (), out))"

definition process ::
  "OpenAL_SoundStream \<Rightarrow> OpenAL_Output \<Rightarrow> (exn + bool) \<times> OpenAL_SoundStream \<times> OpenAL_Output" where
  "process sound out =
     (let state = alGetSourcei_AL_SOURCE_STATE (mSource sound) out;
          processed = alGetSourcei_AL_BUFFERS_PROCESSED (mSource sound) out
      in case throwALerror out of
           (Inl e, out1) \<Rightarrow> (Inl e, sound, out1)
         | (Inr _, out1) \<Rightarrow>
             (case process_refill processed sound out1 of
                (Inl e, sound1, out2) \<Rightarrow> (Inl e, sound1, out2)
              | (Inr _, sound1, out2) \<Rightarrow>
                  (case process_restart state sound1 out2 of
                     (Inl e, out3) \<Rightarrow> (Inl e, sound1, out3)
                   | (Inr _, out3) \<Rightarrow> (Inr (\<not> mIsFinished sound1), sound1, out3))))"

subsection \<open>The one-shot sound\<close>

text \<open>
  The \<^verbatim>\<open>while\<close> loop of \<^verbatim>\<open>LoadBuffer\<close>. \<open>sz\<close> is \<^verbatim>\<open>data.size()\<close> and \<open>data\<close> the
  \<^verbatim>\<open>total\<close> bytes read so far; each read asks for the rest of the vector, and the vector
  grows to twice the total after a read that got anything.
\<close>

function LoadBuffer_read :: "nat \<Rightarrow> byte list \<Rightarrow> decoder \<Rightarrow> byte list \<times> decoder" where
  "LoadBuffer_read sz data decoder =
     (let (got, decoder1) = dec_read (sz - length data) decoder
      in if length got > 0
         then LoadBuffer_read ((length data + length got) * 2) (data @ got) decoder1
         else (data, decoder1))"
  by pat_completeness auto
termination
proof (relation "measure (\<lambda>(sz, data, d). length (dec_data d) - dec_pos d)")
  show "wf (measure (\<lambda>(sz, data, d). length (dec_data d) - dec_pos d))"
    by simp
next
  fix sz :: nat and data :: "byte list" and decoder x got decoder1
  assume "x = dec_read (sz - length data) decoder" and "(got, decoder1) = x"
    and "0 < length got"
  then show "(((length data + length got) * 2, data @ got, decoder1), sz, data, decoder)
      \<in> measure (\<lambda>(sz, data, d). length (dec_data d) - dec_pos d)"
    by (auto simp: dec_read_def Let_def)
qed

declare LoadBuffer_read.simps [simp del]

definition LoadBuffer ::
  "sound_decoder_hpp \<Rightarrow> decoder \<Rightarrow> OpenAL_Output \<Rightarrow> (exn + ALuint) \<times> decoder \<times> OpenAL_Output" where
  "LoadBuffer h decoder out =
     (let (info, decoder1) = dec_getInfo decoder
      in case info of
           Inl e \<Rightarrow> (Inl e, decoder1, out)
         | Inr (srate, chans, type) \<Rightarrow>
             (case getALFormat h chans type of
                Inl e \<Rightarrow> (Inl e, decoder1, out)
              | Inr format \<Rightarrow>
                  let (data, decoder2) = LoadBuffer_read 32768 [] decoder1;
                      (bufs, out1) = alGenBuffers 1 out;
                      buf = (case bufs of [] \<Rightarrow> 0 | b # _ \<Rightarrow> b);
                      out2 = alBufferData buf format data srate out1
                  in (Inr buf, decoder2, out2)))"

text \<open>The members of \<^verbatim>\<open>OpenAL_Sound\<close> (\<open>mSource\<close> is taken by the streaming sound).\<close>

record OpenAL_Sound =
  mSource_Sound :: ALuint
  mBuffer :: ALuint

definition OpenAL_Sound_delete :: "OpenAL_Sound \<Rightarrow> OpenAL_Output \<Rightarrow> OpenAL_Output" where
  "OpenAL_Sound_delete sound out =
     (let out1 = alSourceStop (mSource_Sound sound) out;
          out2 = alSourcei_AL_BUFFER (mSource_Sound sound) 0 out1;
          out3 = out2\<lparr>mFreeSources := mFreeSources out2 @ [mSource_Sound sound]\<rparr>;
          out4 = alDeleteBuffers [mBuffer sound] out3;
          (_, out5) = alGetError out4
      in out5)"

definition OpenAL_Sound_stop :: "OpenAL_Sound \<Rightarrow> OpenAL_Output \<Rightarrow> (exn + unit) \<times> OpenAL_Output" where
  "OpenAL_Sound_stop sound out = throwALerror (alSourceStop (mSource_Sound sound) out)"

definition OpenAL_Sound_isPlaying :: "OpenAL_Sound \<Rightarrow> OpenAL_Output \<Rightarrow> (exn + bool) \<times> OpenAL_Output"
where
  "OpenAL_Sound_isPlaying sound out =
     (let state = alGetSourcei_AL_SOURCE_STATE (mSource_Sound sound) out
      in case throwALerror out of
           (Inl e, out1) \<Rightarrow> (Inl e, out1)
         | (Inr _, out1) \<Rightarrow> (Inr (state = AL_PLAYING), out1))"

definition OpenAL_Sound_update ::
  "OpenAL_Sound \<Rightarrow> vec3 \<Rightarrow> OpenAL_Output \<Rightarrow> (exn + unit) \<times> OpenAL_Output" where
  "OpenAL_Sound_update sound pos out =
     (case pos of (pos0, pos1, pos2) \<Rightarrow>
        let out1 = alSource3f (mSource_Sound sound) AL_POSITION pos0 pos2 (- pos1) out;
            out2 = alSource3f (mSource_Sound sound) AL_DIRECTION 0 0 0 out1;
            out3 = alSource3f (mSource_Sound sound) AL_VELOCITY 0 0 0 out2
        in throwALerror out3)"

subsection \<open>The output device: init\<close>

definition alcGetError :: "ALCdevice \<Rightarrow> ALenum \<times> ALCdevice" where
  "alcGetError dev =
     (case alc_errors dev of
        [] \<Rightarrow> (0, dev)
      | err # rest \<Rightarrow> (err, dev\<lparr>alc_errors := rest\<rparr>))"

text \<open>\<^verbatim>\<open>static void throwALCerror(ALCdevice *device)\<close>.\<close>

definition throwALCerror :: "ALCdevice \<Rightarrow> (exn + unit) \<times> ALCdevice" where
  "throwALCerror dev =
     (let (err, dev1) = alcGetError dev
      in if err \<noteq> 0 then (Inl (fail (alc_strings dev1 err)), dev1) else (Inr (), dev1))"

text \<open>\<^verbatim>\<open>std::vector::resize(n)\<close>: cut to \<open>n\<close> elements, or filled up with zeros.\<close>

definition resize :: "nat \<Rightarrow> ALuint list \<Rightarrow> ALuint list" where
  "resize n xs = take n xs @ replicate (n - length xs) 0"

text \<open>
  The \<^verbatim>\<open>for\<close> loop of \<^verbatim>\<open>init\<close>, from index \<open>i\<close> on. The size of the vector is read
  again at every round; a failed \<^verbatim>\<open>alGenSources\<close> cuts the vector to the sources made
  so far and leaves the loop.
\<close>

function init_sources :: "nat \<Rightarrow> OpenAL_Output \<Rightarrow> OpenAL_Output" where
  "init_sources i out =
     (if i < length (mFreeSources out)
      then
        let (src, out1) = alGenSources out;
            (err, out2) = alGetError out1
        in if err \<noteq> AL_NO_ERROR
           then out2\<lparr>mFreeSources := resize i (mFreeSources out2)\<rparr>
           else init_sources (Suc i) (out2\<lparr>mFreeSources := (mFreeSources out2)[i := src]\<rparr>)
      else out)"
  by pat_completeness auto
termination
proof (relation "measure (\<lambda>(i, out). length (mFreeSources out) - i)")
  show "wf (measure (\<lambda>(i, out). length (mFreeSources out) - i))"
    by simp
next
  fix i :: nat and out x src out1 xa err and out2 :: OpenAL_Output
  assume "i < length (mFreeSources out)" and "x = alGenSources out" and "(src, out1) = x"
    and "xa = alGetError out1" and "(err, out2) = xa"
  then show "((Suc i, out2\<lparr>mFreeSources := (mFreeSources out2)[i := src]\<rparr>), i, out)
      \<in> measure (\<lambda>(i, out). length (mFreeSources out) - i)"
    by (auto simp: alGenSources_def alGetError_def on_source_def Let_def split: list.splits)
qed

declare init_sources.simps [simp del]

text \<open>
  \<^verbatim>\<open>OpenAL_Output::init\<close>. \<open>alcOpenDevice\<close> is the platform: the device a name opens, if
  any. \<^verbatim>\<open>std::min(maxmono+maxstereo, 256)\<close> is computed on 32-bit signed integers; a
  negative count, converted to \<^verbatim>\<open>size_t\<close>, is beyond any vector's \<^verbatim>\<open>max_size()\<close> and
  \<^verbatim>\<open>resize\<close> throws. The line printed to \<^verbatim>\<open>std::cout\<close> is left out.
\<close>

definition init ::
  "(string \<Rightarrow> ALCdevice option) \<Rightarrow> string \<Rightarrow> OpenAL_Output \<Rightarrow> (exn + unit) \<times> OpenAL_Output" where
  "init alcOpenDevice devname out =
     (if mDevice out \<noteq> None \<or> mContext out then (Inl (fail ''Device already open''), out)
      else
        case alcOpenDevice devname of
          None \<Rightarrow> (Inl (fail (''Failed to open '' @ [CHR 0x22] @ devname @ [CHR 0x22])), out)
        | Some dev \<Rightarrow>
            let out1 = out\<lparr>mDevice := Some dev, mContext := alc_create_context dev\<rparr>
            in if \<not> mContext out1 \<or> \<not> alc_make_current dev
               then
                 let (err, dev1) = alcGetError dev
                 in (Inl (fail (''Failed to setup context: '' @ alc_strings dev1 err)),
                     out1\<lparr>mDevice := Some dev1\<rparr>)
               else
                 let out2 = alDistanceModel AL_LINEAR_DISTANCE_CLAMPED out1
                 in case throwALerror out2 of
                      (Inl e, out3) \<Rightarrow> (Inl e, out3)
                    | (Inr _, out3) \<Rightarrow>
                        let maxmono = alc_mono_sources dev;
                            maxstereo = alc_stereo_sources dev
                        in case throwALCerror dev of
                             (Inl e, dev1) \<Rightarrow> (Inl e, out3\<lparr>mDevice := Some dev1\<rparr>)
                           | (Inr _, dev1) \<Rightarrow>
                               let out4 = out3\<lparr>mDevice := Some dev1\<rparr>;
                                   count = (if (256 :: 32 word) <s maxmono + maxstereo
                                            then 256 else maxmono + maxstereo)
                               in if sint count < 0 then (Inl Length_error, out4)
                                  else
                                    let out5 = out4\<lparr>mFreeSources :=
                                                 resize (nat (sint count)) (mFreeSources out4)\<rparr>;
                                        out6 = init_sources 0 out5
                                    in if length (mFreeSources out6) = 0
                                       then (Inl (fail ''Could not allocate any sources''), out6)
                                       else (Inr (), out6))"

subsection \<open>The output device: playing and streaming\<close>

text \<open>
  The \<^verbatim>\<open>try\<close> block of \<^verbatim>\<open>playSound\<close> and \<^verbatim>\<open>playSound3D\<close> (the same text in both)
  with its handler, entered with \<^verbatim>\<open>buf = 0\<close>: on an exception the source goes back to
  the free list, the buffer is deleted if it is one, the error state is drained and the
  exception is thrown again.
\<close>

definition playSound_try ::
  "sound_decoder_hpp \<Rightarrow> string \<Rightarrow> ALuint \<Rightarrow> OpenAL_Output \<Rightarrow> (exn + OpenAL_Sound) \<times> OpenAL_Output"
where
  "playSound_try h fname src out =
     (let tried =
            (case mManager out fname of
               Inl e \<Rightarrow> (Inl e, 0, out)
             | Inr decoder \<Rightarrow>
                 (case LoadBuffer h decoder out of
                    (Inl e, decoder1, out1) \<Rightarrow> (Inl e, 0, out1)
                  | (Inr buf, decoder1, out1) \<Rightarrow>
                      (case throwALerror out1 of
                         (Inl e, out2) \<Rightarrow> (Inl e, buf, out2)
                       | (Inr _, out2) \<Rightarrow>
                           (Inr \<lparr>mSource_Sound = src, mBuffer = buf\<rparr>, buf, out2))))
      in case tried of
           (Inr sound, buf, out3) \<Rightarrow> (Inr sound, out3)
         | (Inl e, buf, out3) \<Rightarrow>
             let out4 = out3\<lparr>mFreeSources := mFreeSources out3 @ [src]\<rparr>;
                 out5 = (if alIsBuffer buf out4 then alDeleteBuffers [buf] out4 else out4);
                 (_, out6) = alGetError out5
             in (Inl e, out6))"

text \<open>
  What \<^verbatim>\<open>playSound\<close> and \<^verbatim>\<open>playSound3D\<close> do after the parameters are set: check for an
  error, attach the buffer, play, check again. The sound is held by an \<^verbatim>\<open>auto_ptr\<close>, so
  an exception here runs its destructor.
\<close>

definition playSound_start :: "OpenAL_Sound \<Rightarrow> OpenAL_Output \<Rightarrow> (exn + OpenAL_Sound) \<times> OpenAL_Output"
where
  "playSound_start sound out =
     (case throwALerror out of
        (Inl e, out1) \<Rightarrow> (Inl e, OpenAL_Sound_delete sound out1)
      | (Inr _, out1) \<Rightarrow>
          let out2 = alSourcei_AL_BUFFER (mSource_Sound sound) (mBuffer sound) out1;
              out3 = alSourcePlay (mSource_Sound sound) out2
          in case throwALerror out3 of
               (Inl e, out4) \<Rightarrow> (Inl e, OpenAL_Sound_delete sound out4)
             | (Inr _, out4) \<Rightarrow> (Inr sound, out4))"

definition playSound ::
  "sound_decoder_hpp \<Rightarrow> string \<Rightarrow> ALfloat \<Rightarrow> ALfloat \<Rightarrow> bool \<Rightarrow> OpenAL_Output
    \<Rightarrow> (exn + OpenAL_Sound) \<times> OpenAL_Output" where
  "playSound h fname volume pitch loop out =
     (case throwALerror out of
        (Inl e, out1) \<Rightarrow> (Inl e, out1)
      | (Inr _, out1) \<Rightarrow>
          if mFreeSources out1 = [] then (Inl (fail ''No free sources''), out1)
          else
            let src = last (mFreeSources out1);
                out2 = out1\<lparr>mFreeSources := butlast (mFreeSources out1)\<rparr>
            in case playSound_try h fname src out2 of
                 (Inl e, out3) \<Rightarrow> (Inl e, out3)
               | (Inr sound, out3) \<Rightarrow>
                   playSound_start sound
                     (alSourcei src AL_LOOPING (if loop then AL_TRUE else AL_FALSE)
                     (alSourcei src AL_SOURCE_RELATIVE AL_TRUE
                     (alSourcef src AL_PITCH pitch
                     (alSourcef src AL_GAIN volume
                     (alSourcef src AL_ROLLOFF_FACTOR 0
                     (alSourcef src AL_MAX_DISTANCE 1000
                     (alSourcef src AL_REFERENCE_DISTANCE 1
                     (alSource3f src AL_VELOCITY 0 0 0
                     (alSource3f src AL_DIRECTION 0 0 0
                     (alSource3f src AL_POSITION 0 0 0 out3)))))))))))"

definition playSound3D ::
  "sound_decoder_hpp \<Rightarrow> string \<Rightarrow> vec3 \<Rightarrow> ALfloat \<Rightarrow> ALfloat \<Rightarrow> ALfloat \<Rightarrow> ALfloat \<Rightarrow> bool
    \<Rightarrow> OpenAL_Output \<Rightarrow> (exn + OpenAL_Sound) \<times> OpenAL_Output" where
  "playSound3D h fname pos volume pitch min_dist max_dist loop out =
     (case pos of (pos0, pos1, pos2) \<Rightarrow>
      case throwALerror out of
        (Inl e, out1) \<Rightarrow> (Inl e, out1)
      | (Inr _, out1) \<Rightarrow>
          if mFreeSources out1 = [] then (Inl (fail ''No free sources''), out1)
          else
            let src = last (mFreeSources out1);
                out2 = out1\<lparr>mFreeSources := butlast (mFreeSources out1)\<rparr>
            in case playSound_try h fname src out2 of
                 (Inl e, out3) \<Rightarrow> (Inl e, out3)
               | (Inr sound, out3) \<Rightarrow>
                   playSound_start sound
                     (alSourcei src AL_LOOPING (if loop then AL_TRUE else AL_FALSE)
                     (alSourcei src AL_SOURCE_RELATIVE AL_FALSE
                     (alSourcef src AL_PITCH pitch
                     (alSourcef src AL_GAIN volume
                     (alSourcef src AL_ROLLOFF_FACTOR 1
                     (alSourcef src AL_MAX_DISTANCE max_dist
                     (alSourcef src AL_REFERENCE_DISTANCE min_dist
                     (alSource3f src AL_VELOCITY 0 0 0
                     (alSource3f src AL_DIRECTION 0 0 0
                     (alSource3f src AL_POSITION pos0 pos2 (- pos1) out3)))))))))))"

text \<open>
  The \<^verbatim>\<open>try\<close> block of \<^verbatim>\<open>streamSound\<close> and \<^verbatim>\<open>streamSound3D\<close> (the same text in
  both) with its handler: on an exception the source goes back to the free list and the
  exception is thrown again.
\<close>

definition streamSound_try ::
  "sound_decoder_hpp \<Rightarrow> string \<Rightarrow> ALuint \<Rightarrow> OpenAL_Output
    \<Rightarrow> (exn + OpenAL_SoundStream) \<times> OpenAL_Output" where
  "streamSound_try h fname src out =
     (let tried =
            (case mManager out fname of
               Inl e \<Rightarrow> (Inl e, out)
             | Inr decoder \<Rightarrow> OpenAL_SoundStream_new h src decoder out)
      in case tried of
           (Inr sound, out1) \<Rightarrow> (Inr sound, out1)
         | (Inl e, out1) \<Rightarrow> (Inl e, out1\<lparr>mFreeSources := mFreeSources out1 @ [src]\<rparr>))"

text \<open>
  What \<^verbatim>\<open>streamSound\<close> and \<^verbatim>\<open>streamSound3D\<close> do after the parameters are set: check
  for an error and call \<^verbatim>\<open>play\<close>. \<open>this\<close> is the address \<^verbatim>\<open>new\<close> gave the sound. The
  sound is held by an \<^verbatim>\<open>auto_ptr\<close>, so an exception here runs its destructor.
\<close>

definition streamSound_start ::
  "nat \<Rightarrow> OpenAL_SoundStream \<Rightarrow> OpenAL_Output \<Rightarrow> (exn + OpenAL_SoundStream) \<times> OpenAL_Output" where
  "streamSound_start this sound out =
     (case throwALerror out of
        (Inl e, out1) \<Rightarrow> (Inl e, snd (OpenAL_SoundStream_delete this sound out1))
      | (Inr _, out1) \<Rightarrow>
          (case play this sound out1 of
             (Inl e, sound1, out2) \<Rightarrow> (Inl e, snd (OpenAL_SoundStream_delete this sound1 out2))
           | (Inr _, sound1, out2) \<Rightarrow> (Inr sound1, out2)))"

definition streamSound ::
  "sound_decoder_hpp \<Rightarrow> nat \<Rightarrow> string \<Rightarrow> ALfloat \<Rightarrow> ALfloat \<Rightarrow> OpenAL_Output
    \<Rightarrow> (exn + OpenAL_SoundStream) \<times> OpenAL_Output" where
  "streamSound h this fname volume pitch out =
     (case throwALerror out of
        (Inl e, out1) \<Rightarrow> (Inl e, out1)
      | (Inr _, out1) \<Rightarrow>
          if mFreeSources out1 = [] then (Inl (fail ''No free sources''), out1)
          else
            let src = last (mFreeSources out1);
                out2 = out1\<lparr>mFreeSources := butlast (mFreeSources out1)\<rparr>
            in case streamSound_try h fname src out2 of
                 (Inl e, out3) \<Rightarrow> (Inl e, out3)
               | (Inr sound, out3) \<Rightarrow>
                   streamSound_start this sound
                     (alSourcei src AL_LOOPING AL_FALSE
                     (alSourcei src AL_SOURCE_RELATIVE AL_TRUE
                     (alSourcef src AL_PITCH pitch
                     (alSourcef src AL_GAIN volume
                     (alSourcef src AL_ROLLOFF_FACTOR 0
                     (alSourcef src AL_MAX_DISTANCE 1000
                     (alSourcef src AL_REFERENCE_DISTANCE 1
                     (alSource3f src AL_VELOCITY 0 0 0
                     (alSource3f src AL_DIRECTION 0 0 0
                     (alSource3f src AL_POSITION 0 0 0 out3)))))))))))"

definition streamSound3D ::
  "sound_decoder_hpp \<Rightarrow> nat \<Rightarrow> string \<Rightarrow> vec3 \<Rightarrow> ALfloat \<Rightarrow> ALfloat \<Rightarrow> ALfloat \<Rightarrow> ALfloat
    \<Rightarrow> OpenAL_Output \<Rightarrow> (exn + OpenAL_SoundStream) \<times> OpenAL_Output" where
  "streamSound3D h this fname pos volume pitch min_dist max_dist out =
     (case pos of (pos0, pos1, pos2) \<Rightarrow>
      case throwALerror out of
        (Inl e, out1) \<Rightarrow> (Inl e, out1)
      | (Inr _, out1) \<Rightarrow>
          if mFreeSources out1 = [] then (Inl (fail ''No free sources''), out1)
          else
            let src = last (mFreeSources out1);
                out2 = out1\<lparr>mFreeSources := butlast (mFreeSources out1)\<rparr>
            in case streamSound_try h fname src out2 of
                 (Inl e, out3) \<Rightarrow> (Inl e, out3)
               | (Inr sound, out3) \<Rightarrow>
                   streamSound_start this sound
                     (alSourcei src AL_LOOPING AL_FALSE
                     (alSourcei src AL_SOURCE_RELATIVE AL_FALSE
                     (alSourcef src AL_PITCH pitch
                     (alSourcef src AL_GAIN volume
                     (alSourcef src AL_ROLLOFF_FACTOR 1
                     (alSourcef src AL_MAX_DISTANCE max_dist
                     (alSourcef src AL_REFERENCE_DISTANCE min_dist
                     (alSource3f src AL_VELOCITY 0 0 0
                     (alSource3f src AL_DIRECTION 0 0 0
                     (alSource3f src AL_POSITION pos0 pos2 (- pos1) out3)))))))))))"

text \<open>\<^verbatim>\<open>OpenAL_Output::updateListener\<close>.\<close>

definition updateListener ::
  "vec3 \<Rightarrow> vec3 \<Rightarrow> vec3 \<Rightarrow> OpenAL_Output \<Rightarrow> (exn + unit) \<times> OpenAL_Output" where
  "updateListener pos atdir updir out =
     (case (pos, atdir, updir) of
        ((pos0, pos1, pos2), (atdir0, atdir1, atdir2), (updir0, updir1, updir2)) \<Rightarrow>
          let orient = [atdir0, atdir2, - atdir1, updir0, updir2, - updir1];
              out1 = alListener3f AL_POSITION pos0 pos2 (- pos1) out;
              out2 = alListenerfv AL_ORIENTATION orient out1
          in throwALerror out2)"

subsection \<open>The voice between two calls of process\<close>

text \<open>
  Between two calls of \<^verbatim>\<open>process\<close> the library goes on by itself: the voice finishes
  \<open>k\<close> more of its pending buffers, its play state becomes \<open>state\<close> (it stops when it
  runs dry, for instance), and the error calls to come return \<open>errs\<close>.
\<close>

definition hardware :: "ALuint \<Rightarrow> nat \<Rightarrow> ALstate \<Rightarrow> ALenum list \<Rightarrow> OpenAL_Output \<Rightarrow> OpenAL_Output" where
  "hardware src k state errs out =
     (on_source src (\<lambda>s. s\<lparr>source_state := state,
                            processed_q := processed_q s @ take k (pending_q s),
                            pending_q := drop k (pending_q s)\<rparr>) out)\<lparr>al_errors := errs\<rparr>"

text \<open>
  A history of a streaming sound under the stream thread: calls of \<^verbatim>\<open>process\<close>
  (whatever they return or throw) and steps of the library in between.
\<close>

datatype event = Process | Hardware nat ALstate "ALenum list"

fun run_events ::
  "event list \<Rightarrow> OpenAL_SoundStream \<Rightarrow> OpenAL_Output \<Rightarrow> OpenAL_SoundStream \<times> OpenAL_Output" where
  "run_events [] sound out = (sound, out)"
| "run_events (Process # evs) sound out =
     (case process sound out of (r, sound1, out1) \<Rightarrow> run_events evs sound1 out1)"
| "run_events (Hardware k state errs # evs) sound out =
     run_events evs sound (hardware (mSource sound) k state errs out)"

text \<open>The whole queue of a voice: the processed buffers, then the pending ones.\<close>

definition queue :: "ALuint \<Rightarrow> OpenAL_Output \<Rightarrow> ALuint list" where
  "queue src out = processed_q (sources out src) @ pending_q (sources out src)"

text \<open>
  How many voices \<open>count\<close> rounds of the loop of \<^verbatim>\<open>init\<close> create, when \<open>errs\<close> lists what
  \<^verbatim>\<open>alGetError\<close> returns after each \<^verbatim>\<open>alGenSources\<close>: as many as checks pass before the
  first one that fails, and \<open>count\<close> if none of the first \<open>count\<close> fails.
\<close>

definition voices_made :: "nat \<Rightarrow> ALenum list \<Rightarrow> nat" where
  "voices_made count errs =
     (let passed = length (takeWhile (\<lambda>e. e = AL_NO_ERROR) errs)
      in if passed < length errs then min count passed else count)"

text \<open>The bytes a decoder has not yet given out.\<close>

definition remaining :: "decoder \<Rightarrow> nat" where
  "remaining d = length (dec_data d) - dec_pos d"

text \<open>How often a decoder has been rewound.\<close>

definition rewinds :: "decoder \<Rightarrow> nat" where
  "rewinds d = length (filter (\<lambda>c. c = Rewind) (dec_calls d))"

subsection \<open>Concrete states\<close>

text \<open>
  States on which the theorems below are evaluated: a library with six buffers 1 to 6 and
  no error to report, a stream of nine bytes at 32 Hz, mono, 8 bit (buffers of 4 bytes),
  and a streaming sound on voice 7.
\<close>

definition silent_source :: al_source where
  "silent_source =
     \<lparr>source_state = AL_INITIAL, processed_q = [], pending_q = [],
      source3f = (\<lambda>_. (0, 0, 0)), sourcef = (\<lambda>_. 0), sourcei = (\<lambda>_. 0)\<rparr>"

definition empty_buffer :: al_buffer where
  "empty_buffer = \<lparr>buf_format = AL_NONE, buf_data = [], buf_freq = 0\<rparr>"

definition idle_output :: OpenAL_Output where
  "idle_output =
     \<lparr>al_errors = [], al_strings = (\<lambda>_. ''error''), sources = (\<lambda>_. silent_source),
      buffers = (\<lambda>b. if 1 \<le> b \<and> b \<le> 6 then Some empty_buffer else None), generated = 7,
      listener3f = (\<lambda>_. (0, 0, 0)), listenerfv = (\<lambda>_. []),
      distance_model = AL_LINEAR_DISTANCE_CLAMPED,
      mDevice = None, mContext = True, mFreeSources = [], mStreams = [],
      mManager = (\<lambda>_. Inl (Runtime_error ''no such file''))\<rparr>"

definition nine_bytes :: decoder where
  "nine_bytes =
     \<lparr>dec_info = Inr (32, ChannelConfig_Mono, SampleType_UInt8),
      dec_data = [1, 2, 3, 4, 5, 6, 7, 8, 9], dec_pos = 0, dec_calls = []\<rparr>"

definition stream_sound :: OpenAL_SoundStream where
  "stream_sound =
     \<lparr>mSource = 7, mBuffers = [1, 2, 3, 4, 5, 6], mFormat = AL_FORMAT_MONO8, mSampleRate = 32,
      mBufferSize = 4, mDecoder = nine_bytes, mIsFinished = True\<rparr>"

text \<open>
  A sound that is not finishing and whose decoder is exhausted, as it is once
  \<^verbatim>\<open>play\<close> has read the whole stream into the six buffers (4, 4, 1, 0, 0 and 0 bytes),
  and the voice once it has finished the first of the six.
\<close>

definition draining_sound :: OpenAL_SoundStream where
  "draining_sound = stream_sound\<lparr>mDecoder := nine_bytes\<lparr>dec_pos := 9\<rparr>, mIsFinished := False\<rparr>"

definition draining_output :: OpenAL_Output where
  "draining_output =
     idle_output\<lparr>sources := (sources idle_output)
       (7 := silent_source\<lparr>source_state := AL_PLAYING, processed_q := [1],
                            pending_q := [2, 3, 4, 5, 6]\<rparr>)\<rparr>"

text \<open>
  A sound that is not finishing, with the decoder at a given position of the stream, and
  a voice that has finished three of its six buffers.
\<close>

definition playing_sound :: "nat \<Rightarrow> OpenAL_SoundStream" where
  "playing_sound pos = stream_sound\<lparr>mDecoder := nine_bytes\<lparr>dec_pos := pos\<rparr>, mIsFinished := False\<rparr>"

definition three_played_output :: OpenAL_Output where
  "three_played_output =
     idle_output\<lparr>sources := (sources idle_output)
       (7 := silent_source\<lparr>source_state := AL_PLAYING, processed_q := [1, 2, 3],
                            pending_q := [4, 5, 6]\<rparr>)\<rparr>"

text \<open>A voice that ran dry and stopped with two buffers in its queue, both processed.\<close>

definition stalled_output :: OpenAL_Output where
  "stalled_output =
     idle_output\<lparr>sources := (sources idle_output)
       (7 := silent_source\<lparr>source_state := AL_STOPPED, processed_q := [1, 2]\<rparr>)\<rparr>"

text \<open>
  Functions for the parameters taken from \<^verbatim>\<open>sound_decoder.hpp\<close>, two decoders whose
  construction of a streaming sound fails (\<^verbatim>\<open>getInfo\<close> throws; \<^verbatim>\<open>getInfo\<close> reports a
  channel layout that is not in the table), and an output with the free voices 7 and 8
  whose manager opens the given decoder for every file name.
\<close>

definition example_hpp :: sound_decoder_hpp where
  "example_hpp =
     \<lparr>getChannelConfigName =
        (\<lambda>c. case c of ChannelConfig_Mono \<Rightarrow> ''Mono'' | ChannelConfig_Stereo \<Rightarrow> ''Stereo''
                       | ChannelConfig_Other n \<Rightarrow> ''(unknown channel config)''),
      getSampleTypeName =
        (\<lambda>t. case t of SampleType_UInt8 \<Rightarrow> ''U8'' | SampleType_Int16 \<Rightarrow> ''S16''
                       | SampleType_Other n \<Rightarrow> ''(unknown sample type)''),
      framesToBytes =
        (\<lambda>frames c t.
           frames * (case c of ChannelConfig_Mono \<Rightarrow> 1 | ChannelConfig_Stereo \<Rightarrow> 2
                             | ChannelConfig_Other n \<Rightarrow> 0)
                  * (case t of SampleType_UInt8 \<Rightarrow> 1 | SampleType_Int16 \<Rightarrow> 2
                             | SampleType_Other n \<Rightarrow> 0))\<rparr>"

definition no_info :: decoder where
  "no_info = nine_bytes\<lparr>dec_info := Inl (Runtime_error ''Unsupported channel layout'')\<rparr>"

definition surround :: decoder where
  "surround = nine_bytes\<lparr>dec_info := Inr (32, ChannelConfig_Other 0, SampleType_Int16)\<rparr>"

definition two_voices :: "decoder \<Rightarrow> OpenAL_Output" where
  "two_voices decoder = idle_output\<lparr>mFreeSources := [7, 8], mManager := (\<lambda>_. Inr decoder)\<rparr>"

text \<open>
  An output that has not been initialised, in a library whose third creation of a voice
  will fail (error 40965, \<^verbatim>\<open>AL_OUT_OF_MEMORY\<close>), and a device that reports 3 mono and 1
  stereo voices.
\<close>

definition closed_output :: OpenAL_Output where
  "closed_output =
     idle_output\<lparr>al_errors := [AL_NO_ERROR, AL_NO_ERROR, AL_NO_ERROR, 40965], mContext := False\<rparr>"

definition four_voice_device :: ALCdevice where
  "four_voice_device =
     \<lparr>alc_device_specifier = ''OpenAL Soft'', alc_create_context = True, alc_make_current = True,
      alc_mono_sources = 3, alc_stereo_sources = 1, alc_errors = [],
      alc_strings = (\<lambda>_. ''error'')\<rparr>"

section \<open>Properties\<close>

subsection \<open>Format negotiation\<close>

text \<open>
  C6: \<open>getALFormat\<close> returns a device format for each of the four pairs of
  \{mono, stereo\} and \{8-bit unsigned, 16-bit signed\}, and for every other pair it throws
  an exception whose message holds the name of the requested channel layout and the name
  of the requested sample type.
\<close>

theorem getALFormat_total_on_supported:
  "getALFormat h chans type =
     (if chans = ChannelConfig_Mono \<and> type = SampleType_Int16 then Inr AL_FORMAT_MONO16
      else if chans = ChannelConfig_Mono \<and> type = SampleType_UInt8 then Inr AL_FORMAT_MONO8
      else if chans = ChannelConfig_Stereo \<and> type = SampleType_Int16 then Inr AL_FORMAT_STEREO16
      else if chans = ChannelConfig_Stereo \<and> type = SampleType_UInt8 then Inr AL_FORMAT_STEREO8
      else Inl (Runtime_error
        (''OpenAL exception: Unsupported sound format ('' @ getChannelConfigName h chans @ '', '' @
         getSampleTypeName h type @ '')'')))"
  by (simp add: getALFormat_def fmtlist_def fail_def)

subsection \<open>Unfolding the library\<close>

named_theorems al_defs \<open>the definitions of the calls of the library\<close>

lemmas [al_defs] = alGetError_def throwALerror_def on_source_def alSourceStop_def alSourcePlay_def
  alSourcei_AL_BUFFER_def alSourcei_def alSourcef_def alSource3f_def alSourceQueueBuffers_def
  alSourceUnqueueBuffers_def alGetSourcei_AL_SOURCE_STATE_def alGetSourcei_AL_BUFFERS_PROCESSED_def
  alGetSourcei_AL_BUFFERS_QUEUED_def alGenBuffers_def alGenSources_def alBufferData_def
  alDeleteBuffers_def alIsBuffer_def alListener3f_def alListenerfv_def alDistanceModel_def fail_def

lemmas state_defs = silent_source_def empty_buffer_def idle_output_def nine_bytes_def
  stream_sound_def draining_sound_def draining_output_def stalled_output_def example_hpp_def
  no_info_def surround_def two_voices_def

lemmas more_defs = playing_sound_def three_played_output_def remaining_def

lemma throwALerror_ok: "al_errors w = [] \<Longrightarrow> throwALerror w = (Inr (), w)"
  by (simp add: throwALerror_def alGetError_def)

subsection \<open>What process leaves alone\<close>

lemma process_buffer_frame:
  "process_buffer sound out = (sound1, out1) \<Longrightarrow>
     al_errors out1 = al_errors out \<and> mSource sound1 = mSource sound \<and>
     source_state (sources out1 (mSource sound)) = source_state (sources out (mSource sound)) \<and>
     (mIsFinished sound \<longrightarrow> sound1 = sound)"
  by (auto simp: process_buffer_def al_defs Let_def split: prod.splits list.splits if_splits)

lemma process_loop_frame:
  "process_loop n sound out = (sound1, out1) \<Longrightarrow>
     al_errors out1 = al_errors out \<and> mSource sound1 = mSource sound \<and>
     source_state (sources out1 (mSource sound)) = source_state (sources out (mSource sound)) \<and>
     (mIsFinished sound \<longrightarrow> sound1 = sound)"
proof (induction n arbitrary: sound out)
  case 0
  then show ?case by simp
next
  case (Suc n)
  obtain sound' out' where b: "process_buffer sound out = (sound', out')"
    by (cases "process_buffer sound out")
  with Suc.prems have l: "process_loop n sound' out' = (sound1, out1)"
    by simp
  from process_buffer_frame [OF b] Suc.IH [OF l] show ?case
    by auto
qed

lemma process_refill_frame:
  "process_refill n sound out = (r, sound1, out1) \<Longrightarrow>
     mSource sound1 = mSource sound \<and>
     source_state (sources out1 (mSource sound)) = source_state (sources out (mSource sound)) \<and>
     (mIsFinished sound \<longrightarrow> sound1 = sound) \<and>
     (al_errors out = [] \<longrightarrow> r = Inr () \<and> al_errors out1 = [])"
  by (auto simp: process_refill_def throwALerror_def alGetError_def Let_def
      split: prod.splits if_splits list.splits dest!: process_loop_frame)

lemma process_restart_ok:
  "al_errors out = [] \<Longrightarrow>
     process_restart state sound out =
       (Inr (), if state \<noteq> AL_PLAYING \<and> state \<noteq> AL_PAUSED \<and>
                   0 < alGetSourcei_AL_BUFFERS_QUEUED (mSource sound) out
                then alSourcePlay (mSource sound) out else out)"
  by (simp add: process_restart_def throwALerror_ok alSourcePlay_def on_source_def)

subsection \<open>The return value of process\<close>

text \<open>
  C1, as the spec has it, fails: \<open>process\<close> returns false as soon as the sound is
  finishing, with buffers still queued. Here the first of six queued buffers has been
  played and the decoder is exhausted: the read gets nothing, the sound becomes
  finishing, and \<open>process\<close> returns false while five buffers are still queued.
\<close>

theorem process_false_with_buffers_queued:
  "fst (process draining_sound draining_output) = Inr False \<and>
   mIsFinished (fst (snd (process draining_sound draining_output))) \<and>
   alGetSourcei_AL_BUFFERS_QUEUED 7 (snd (snd (process draining_sound draining_output))) = 5"
  by (simp add: process_def process_refill_def process_restart_def process_buffer_def
      dec_read_def al_defs state_defs Let_def)

text \<open>
  C1, amended: whenever \<open>process\<close> returns, it returns true exactly if the sound is not
  finishing at the end of the call; for a sound that is finishing when the call starts it
  never returns true, whatever the queue holds; and with no error of the library to
  report it does return.
\<close>

theorem process_returns_not_finished:
  "(\<forall>b. fst (process sound out) = Inr b \<longrightarrow> b = (\<not> mIsFinished (fst (snd (process sound out))))) \<and>
   (mIsFinished sound \<longrightarrow> fst (process sound out) \<noteq> Inr True) \<and>
   (al_errors out = [] \<longrightarrow> (\<exists>b. fst (process sound out) = Inr b))"
proof (intro conjI allI impI)
  fix b
  assume "fst (process sound out) = Inr b"
  then show "b = (\<not> mIsFinished (fst (snd (process sound out))))"
    by (auto simp: process_def Let_def split: prod.splits sum.splits)
next
  assume fin: "mIsFinished sound"
  show "fst (process sound out) \<noteq> Inr True"
    using fin
    by (auto simp: process_def Let_def split: prod.splits sum.splits dest!: process_refill_frame)
next
  assume ok: "al_errors out = []"
  obtain r sound1 out1 where
    refill: "process_refill (alGetSourcei_AL_BUFFERS_PROCESSED (mSource sound) out) sound out
       = (r, sound1, out1)"
    by (metis prod_cases3)
  from process_refill_frame [OF refill] ok have "r = Inr ()" and "al_errors out1 = []"
    by auto
  then show "\<exists>b. fst (process sound out) = Inr b"
    using ok refill by (simp add: process_def Let_def throwALerror_ok process_restart_ok)
qed

theorem process_returns_not_finished_witness:
  "mIsFinished stream_sound \<and> al_errors draining_output = [] \<and>
   fst (process stream_sound draining_output) = Inr False \<and>
   mIsFinished (fst (snd (process stream_sound draining_output))) \<and>
   queue 7 (snd (snd (process stream_sound draining_output))) = [2, 3, 4, 5, 6]"
  using process_returns_not_finished [of stream_sound draining_output]
  by (simp add: process_def process_refill_def process_restart_def process_buffer_def
      queue_def al_defs state_defs Let_def)

subsection \<open>One call of process, buffer by buffer\<close>

text \<open>
  The loop of \<open>process\<close> on a sound that is finishing only takes buffers off the queue.
\<close>

lemma process_loop_finished_queue:
  "mIsFinished sound \<Longrightarrow> process_loop n sound out = (sound1, out1) \<Longrightarrow>
     sound1 = sound \<and>
     processed_q (sources out1 (mSource sound)) = drop n (processed_q (sources out (mSource sound))) \<and>
     pending_q (sources out1 (mSource sound)) = pending_q (sources out (mSource sound)) \<and>
     buffers out1 = buffers out"
proof (induction n arbitrary: out)
  case 0
  then show ?case by simp
next
  case (Suc n)
  let ?src = "mSource sound"
  obtain out' where b: "process_buffer sound out = (sound, out')"
    using Suc.prems(1) by (cases "process_buffer sound out") (auto dest: process_buffer_frame)
  from Suc.prems b have l: "process_loop n sound out' = (sound1, out1)"
    by simp
  from b Suc.prems(1)
  have "processed_q (sources out' ?src) = drop 1 (processed_q (sources out ?src))"
    and "pending_q (sources out' ?src) = pending_q (sources out ?src)"
    and "buffers out' = buffers out"
    by (auto simp: process_buffer_def alSourceUnqueueBuffers_def on_source_def
        split: list.splits)
  with Suc.IH [OF Suc.prems(1) l] show ?case
    by simp
qed

lemma full_read_div:
  fixes r bs :: nat
  assumes "0 < bs" and "bs \<le> r"
  shows "r div bs = Suc ((r - bs) div bs)"
    and "(r + bs - 1) div bs = Suc ((r - bs + bs - 1) div bs)"
proof -
  show "r div bs = Suc ((r - bs) div bs)"
    using assms by (rule le_div_geq)
  have "bs \<le> r + bs - 1"
    using assms by simp
  from le_div_geq [OF assms(1) this] have "(r + bs - 1) div bs = Suc ((r + bs - 1 - bs) div bs)" .
  moreover have "r + bs - 1 - bs = r - bs + bs - 1"
    using assms by simp
  ultimately show "(r + bs - 1) div bs = Suc ((r - bs + bs - 1) div bs)"
    by simp
qed

lemma short_read_div:
  fixes r bs :: nat
  assumes "r < bs"
  shows "r div bs = 0" and "(r + bs - 1) div bs = (if r = 0 then 0 else 1)"
proof -
  show "r div bs = 0"
    using assms by simp
  show "(r + bs - 1) div bs = (if r = 0 then 0 else 1)"
  proof (cases "r = 0")
    case True
    with assms show ?thesis by simp
  next
    case False
    with assms have "bs \<le> r + bs - 1" "r + bs - 1 - bs < bs" "0 < bs"
      by simp_all
    from le_div_geq [OF this(3) this(1)] this(2) False show ?thesis
      by simp
  qed
qed

lemma process_loop_reads:
  "\<not> mIsFinished sound \<Longrightarrow> 0 < mBufferSize sound \<Longrightarrow>
   process_loop n sound out = (sound1, out1) \<Longrightarrow>
   n \<le> length (processed_q (sources out (mSource sound))) \<Longrightarrow>
     dec_calls (mDecoder sound1) =
       dec_calls (mDecoder sound) @
         replicate (min n ((length (dec_data (mDecoder sound)) - dec_pos (mDecoder sound))
                           div mBufferSize sound + 1))
           (Read (mBufferSize sound)) \<and>
     mIsFinished sound1 =
       ((length (dec_data (mDecoder sound)) - dec_pos (mDecoder sound)) div mBufferSize sound < n) \<and>
     processed_q (sources out1 (mSource sound)) = drop n (processed_q (sources out (mSource sound))) \<and>
     pending_q (sources out1 (mSource sound)) =
       pending_q (sources out (mSource sound)) @
         take (min n ((length (dec_data (mDecoder sound)) - dec_pos (mDecoder sound)
                       + mBufferSize sound - 1) div mBufferSize sound))
           (processed_q (sources out (mSource sound)))"
proof (induction n arbitrary: sound out)
  case 0
  then show ?case by simp
next
  case (Suc n)
  let ?src = "mSource sound"
  let ?bs = "mBufferSize sound"
  let ?data = "dec_data (mDecoder sound)"
  let ?pos = "dec_pos (mDecoder sound)"
  let ?r = "length ?data - ?pos"
  let ?got = "take ?bs (drop ?pos ?data)"
  from Suc.prems(4) obtain b rest where pq: "processed_q (sources out ?src) = b # rest"
    by (cases "processed_q (sources out ?src)") simp_all
  let ?d1 = "(mDecoder sound)\<lparr>dec_pos := ?pos + length ?got,
                               dec_calls := dec_calls (mDecoder sound) @ [Read ?bs]\<rparr>"
  let ?sound' = "sound\<lparr>mDecoder := ?d1, mIsFinished := (length ?got < ?bs)\<rparr>"
  obtain out' where b: "process_buffer sound out = (?sound', out')"
    using Suc.prems(1)
    by (cases "process_buffer sound out")
       (auto simp: process_buffer_def dec_read_def Let_def split: prod.splits if_splits)
  from b Suc.prems(1) pq
  have q': "processed_q (sources out' ?src) = rest"
    and p': "pending_q (sources out' ?src) =
      pending_q (sources out ?src) @ (if ?got \<noteq> [] then [b] else [])"
    by (auto simp: process_buffer_def dec_read_def alSourceUnqueueBuffers_def
        alSourceQueueBuffers_def alBufferData_def on_source_def Let_def split: if_splits)
  from Suc.prems(3) b have l: "process_loop n ?sound' out' = (sound1, out1)"
    by simp
  have len: "length ?got = min ?bs ?r"
    by (simp add: min.commute)
  show ?case
  proof (cases "?bs \<le> ?r")
    case True
    then have full: "length ?got = ?bs" "?got \<noteq> []"
      using Suc.prems(2) by (auto simp: min_def)
    have nf: "\<not> mIsFinished ?sound'"
      using full by simp
    have r': "length (dec_data (mDecoder ?sound')) - dec_pos (mDecoder ?sound') = ?r - ?bs"
      using full by simp
    have n': "n \<le> length (processed_q (sources out' (mSource ?sound')))"
      using Suc.prems(4) pq q' by simp
    have bs': "0 < mBufferSize ?sound'"
      using Suc.prems(2) by simp
    note IH = Suc.IH [OF nf bs' l n', unfolded r']
    note d = full_read_div [OF Suc.prems(2) True]
    from IH have "dec_calls (mDecoder sound1) =
        dec_calls (mDecoder sound) @ replicate (Suc (min n ((?r - ?bs) div ?bs + 1))) (Read ?bs)"
      by (simp add: replicate_append_same)
    moreover from IH have "mIsFinished sound1 = ((?r - ?bs) div ?bs < n)"
      by simp
    moreover from IH q' pq have "processed_q (sources out1 ?src) = drop (Suc n) (b # rest)"
      by simp
    moreover from IH q' p' pq full have "pending_q (sources out1 ?src) =
        pending_q (sources out ?src) @ take (Suc (min n ((?r - ?bs + ?bs - 1) div ?bs))) (b # rest)"
      by simp
    ultimately show ?thesis
      unfolding pq d by simp
  next
    case False
    then have short: "length ?got < ?bs" "length ?got = ?r"
      by (simp_all add: min_def)
    then have fin: "mIsFinished ?sound'"
      by simp
    from process_loop_finished_queue [OF fin l] q' p'
    have "sound1 = ?sound'"
      and "processed_q (sources out1 ?src) = drop n rest"
      and "pending_q (sources out1 ?src) =
        pending_q (sources out ?src) @ (if ?got \<noteq> [] then [b] else [])"
      by simp_all
    moreover from False have "?r < ?bs"
      by simp
    note d = short_read_div [OF this]
    moreover have "(?got \<noteq> []) = (?r \<noteq> 0)"
      using short(2) by (metis length_0_conv)
    ultimately show ?thesis
      unfolding pq d using fin by auto
  qed
qed


lemma process_loop_buffers:
  "\<not> mIsFinished sound \<Longrightarrow> 0 < mBufferSize sound \<Longrightarrow>
   process_loop n sound out = (sound1, out1) \<Longrightarrow>
   n \<le> length (processed_q (sources out (mSource sound))) \<Longrightarrow>
   distinct (take n (processed_q (sources out (mSource sound)))) \<Longrightarrow>
   \<forall>b \<in> set (take n (processed_q (sources out (mSource sound)))). buffers out b \<noteq> None \<Longrightarrow>
     (\<forall>i < min n ((length (dec_data (mDecoder sound)) - dec_pos (mDecoder sound)
                     + mBufferSize sound - 1) div mBufferSize sound).
        buffers out1 (processed_q (sources out (mSource sound)) ! i) =
          Some \<lparr>buf_format = mFormat sound,
                buf_data = take (mBufferSize sound)
                  (drop (dec_pos (mDecoder sound) + i * mBufferSize sound)
                     (dec_data (mDecoder sound))),
                buf_freq = mSampleRate sound\<rparr>) \<and>
     (\<forall>b. b \<notin> set (take (min n ((length (dec_data (mDecoder sound)) - dec_pos (mDecoder sound)
                                   + mBufferSize sound - 1) div mBufferSize sound))
                        (processed_q (sources out (mSource sound))))
          \<longrightarrow> buffers out1 b = buffers out b)"
proof (induction n arbitrary: sound out)
  case 0
  then show ?case by simp
next
  case (Suc n)
  let ?src = "mSource sound"
  let ?bs = "mBufferSize sound"
  let ?data = "dec_data (mDecoder sound)"
  let ?pos = "dec_pos (mDecoder sound)"
  let ?r = "length ?data - ?pos"
  let ?got = "take ?bs (drop ?pos ?data)"
  let ?filled = "\<lparr>buf_format = mFormat sound, buf_data = ?got, buf_freq = mSampleRate sound\<rparr>"
  from Suc.prems(4) obtain b rest where pq: "processed_q (sources out ?src) = b # rest"
    by (cases "processed_q (sources out ?src)") simp_all
  let ?d1 = "(mDecoder sound)\<lparr>dec_pos := ?pos + length ?got,
                               dec_calls := dec_calls (mDecoder sound) @ [Read ?bs]\<rparr>"
  let ?sound' = "sound\<lparr>mDecoder := ?d1, mIsFinished := (length ?got < ?bs)\<rparr>"
  obtain out' where b: "process_buffer sound out = (?sound', out')"
    using Suc.prems(1)
    by (cases "process_buffer sound out")
       (auto simp: process_buffer_def dec_read_def Let_def split: prod.splits if_splits)
  from Suc.prems(6) pq have ex: "buffers out b \<noteq> None"
    by simp
  from b Suc.prems(1) pq ex
  have q': "processed_q (sources out' ?src) = rest"
    and b': "buffers out' = (if ?got \<noteq> [] then (buffers out)(b \<mapsto> ?filled) else buffers out)"
    by (auto simp: process_buffer_def dec_read_def alSourceUnqueueBuffers_def
        alSourceQueueBuffers_def alBufferData_def on_source_def Let_def split: if_splits)
  from Suc.prems(3) b have l: "process_loop n ?sound' out' = (sound1, out1)"
    by simp
  from Suc.prems(5) pq have dist: "distinct (take n rest)" and nb: "b \<notin> set (take n rest)"
    by simp_all
  show ?case
  proof (cases "?bs \<le> ?r")
    case True
    then have full: "length ?got = ?bs" "?got \<noteq> []"
      using Suc.prems(2) by (auto simp: min_def)
    have nf: "\<not> mIsFinished ?sound'"
      using full by simp
    have r': "length (dec_data (mDecoder ?sound')) - dec_pos (mDecoder ?sound') = ?r - ?bs"
      using full by simp
    have n': "n \<le> length (processed_q (sources out' (mSource ?sound')))"
      using Suc.prems(4) pq q' by simp
    have bs': "0 < mBufferSize ?sound'"
      using Suc.prems(2) by simp
    have dist': "distinct (take n (processed_q (sources out' (mSource ?sound'))))"
      using dist q' by simp
    have ex': "\<forall>b \<in> set (take n (processed_q (sources out' (mSource ?sound')))).
        buffers out' b \<noteq> None"
      using Suc.prems(6) pq q' b' by simp
    define j where "j = min n ((?r - ?bs + ?bs - 1) div ?bs)"
    have IH: "\<forall>i < j. buffers out1 (rest ! i) =
          Some \<lparr>buf_format = mFormat sound,
                buf_data = take ?bs (drop (?pos + ?bs + i * ?bs) ?data),
                buf_freq = mSampleRate sound\<rparr>"
        "\<forall>b'. b' \<notin> set (take j rest) \<longrightarrow> buffers out1 b' = buffers out' b'"
      using Suc.IH [OF nf bs' l n' dist' ex'] q' full unfolding j_def by simp_all
    have d: "min (Suc n) ((?r + ?bs - 1) div ?bs) = Suc j"
      unfolding j_def full_read_div(2) [OF Suc.prems(2) True] by simp
    have jn: "j \<le> n"
      by (simp add: j_def)
    then have nbj: "b \<notin> set (take j rest)"
      using nb set_take_subset_set_take [of j n rest] by blast
    have "buffers out1 ((b # rest) ! i) =
        Some \<lparr>buf_format = mFormat sound,
              buf_data = take ?bs (drop (?pos + i * ?bs) ?data),
              buf_freq = mSampleRate sound\<rparr>" if "i < Suc j" for i
    proof (cases i)
      case 0
      with IH(2) nbj b' full show ?thesis by simp
    next
      case (Suc i')
      with that have "i' < j"
        by simp
      with IH have "buffers out1 (rest ! i') =
          Some \<lparr>buf_format = mFormat sound,
                buf_data = take ?bs (drop (?pos + ?bs + i' * ?bs) ?data),
                buf_freq = mSampleRate sound\<rparr>"
        by simp
      with Suc show ?thesis
        by (simp add: add.assoc)
    qed
    moreover have "buffers out1 b' = buffers out b'" if "b' \<notin> set (take (Suc j) (b # rest))" for b'
      using that IH(2) b' full by simp
    ultimately show ?thesis
      unfolding pq d by blast
  next
    case False
    then have short: "length ?got < ?bs" "length ?got = ?r"
      by (simp_all add: min_def)
    then have fin: "mIsFinished ?sound'"
      by simp
    from process_loop_finished_queue [OF fin l] have same: "buffers out1 = buffers out'"
      by simp
    from False have "?r < ?bs"
      by simp
    note d = short_read_div(2) [OF this]
    have ne: "(?got \<noteq> []) = (?r \<noteq> 0)"
      using short(2) by (metis length_0_conv)
    show ?thesis
      unfolding pq d using same b' ne by auto
  qed
qed


text \<open>What the two checks for an error and the restart leave alone.\<close>

lemma throwALerror_frame:
  "sources (snd (throwALerror out)) = sources out \<and> buffers (snd (throwALerror out)) = buffers out"
  by (simp add: throwALerror_def alGetError_def Let_def split: list.splits)

lemma process_restart_queues:
  "buffers (snd (process_restart st sound out)) = buffers out \<and>
   (processed_q (sources out src) = [] \<longrightarrow>
      processed_q (sources (snd (process_restart st sound out)) src) = [] \<and>
      pending_q (sources (snd (process_restart st sound out)) src) = pending_q (sources out src))"
  by (simp add: process_restart_def throwALerror_def alGetError_def alSourcePlay_def
      alGetSourcei_AL_BUFFERS_QUEUED_def on_source_def Let_def split: list.splits)

lemma process_after_loop:
  assumes first: "fst (throwALerror out) = Inr ()"
    and p: "process sound out = (res, sound1, out1)"
    and l: "process_loop (length (processed_q (sources out (mSource sound)))) sound
              (snd (throwALerror out)) = (sl, ol)"
  shows "sound1 = sl \<and> buffers out1 = buffers ol \<and>
         (processed_q (sources ol src) = [] \<longrightarrow>
            processed_q (sources out1 src) = [] \<and>
            pending_q (sources out1 src) = pending_q (sources ol src))"
proof -
  let ?n = "length (processed_q (sources out (mSource sound)))"
  obtain out0 where t: "throwALerror out = (Inr (), out0)"
    using first by (cases "throwALerror out") simp
  with l have l0: "process_loop ?n sound out0 = (sl, ol)"
    by simp
  define r2 where "r2 = (if 0 < ?n then fst (throwALerror ol) else Inr ())"
  define o2 where "o2 = (if 0 < ?n then snd (throwALerror ol) else ol)"
  have refill: "process_refill ?n sound out0 = (r2, sl, o2)"
    using l0 by (auto simp: process_refill_def r2_def o2_def split_beta)
  have o2: "sources o2 = sources ol" "buffers o2 = buffers ol"
    by (simp_all add: o2_def throwALerror_frame)
  show ?thesis
  proof (cases r2)
    case (Inl e)
    with p t refill have "sound1 = sl" "out1 = o2"
      by (simp_all add: process_def Let_def alGetSourcei_AL_BUFFERS_PROCESSED_def)
    with o2 show ?thesis by simp
  next
    case (Inr u)
    with p t refill have "sound1 = sl"
      and "out1 = snd (process_restart (alGetSourcei_AL_SOURCE_STATE (mSource sound) out) sl o2)"
      by (simp_all add: process_def Let_def alGetSourcei_AL_BUFFERS_PROCESSED_def
          split: prod.splits sum.splits)
    with o2 process_restart_queues [of "alGetSourcei_AL_SOURCE_STATE (mSource sound) out" sl o2 src]
    show ?thesis by simp
  qed
qed

lemma process_reads:
  assumes first: "fst (throwALerror out) = Inr ()"
    and bs: "0 < mBufferSize sound"
    and p: "process sound out = (res, sound1, out1)"
  shows "dec_calls (mDecoder sound1) =
           dec_calls (mDecoder sound) @
             replicate (if mIsFinished sound then 0
                        else min (length (processed_q (sources out (mSource sound))))
                               (remaining (mDecoder sound) div mBufferSize sound + 1))
               (Read (mBufferSize sound)) \<and>
         mIsFinished sound1 =
           (mIsFinished sound \<or>
            remaining (mDecoder sound) div mBufferSize sound
              < length (processed_q (sources out (mSource sound)))) \<and>
         processed_q (sources out1 (mSource sound)) = [] \<and>
         pending_q (sources out1 (mSource sound)) =
           pending_q (sources out (mSource sound)) @
             take (if mIsFinished sound then 0
                   else min (length (processed_q (sources out (mSource sound))))
                          ((remaining (mDecoder sound) + mBufferSize sound - 1)
                             div mBufferSize sound))
               (processed_q (sources out (mSource sound)))"
proof -
  let ?src = "mSource sound"
  let ?n = "length (processed_q (sources out ?src))"
  let ?out0 = "snd (throwALerror out)"
  have s0: "sources ?out0 = sources out"
    by (simp add: throwALerror_frame)
  obtain sl ol where l: "process_loop ?n sound ?out0 = (sl, ol)"
    by (cases "process_loop ?n sound ?out0")
  note after = process_after_loop [OF first p l, of ?src]
  show ?thesis
  proof (cases "mIsFinished sound")
    case True
    from process_loop_finished_queue [OF True l] s0 after True show ?thesis
      by simp
  next
    case False
    have "?n \<le> length (processed_q (sources ?out0 ?src))"
      by (simp add: s0)
    from process_loop_reads [OF False bs l this] s0 after False show ?thesis
      by (simp add: remaining_def)
  qed
qed


lemma process_buffers:
  assumes first: "fst (throwALerror out) = Inr ()"
    and nf: "\<not> mIsFinished sound" and bs: "0 < mBufferSize sound"
    and d: "distinct (processed_q (sources out (mSource sound)))"
    and ex: "\<forall>b \<in> set (processed_q (sources out (mSource sound))). buffers out b \<noteq> None"
    and p: "process sound out = (res, sound1, out1)"
    and i: "i < length (processed_q (sources out (mSource sound)))"
      "i < (remaining (mDecoder sound) + mBufferSize sound - 1) div mBufferSize sound"
  shows "buffers out1 (processed_q (sources out (mSource sound)) ! i) =
           Some \<lparr>buf_format = mFormat sound,
                 buf_data = take (mBufferSize sound)
                   (drop (dec_pos (mDecoder sound) + i * mBufferSize sound)
                      (dec_data (mDecoder sound))),
                 buf_freq = mSampleRate sound\<rparr>"
proof -
  let ?src = "mSource sound"
  let ?n = "length (processed_q (sources out ?src))"
  let ?out0 = "snd (throwALerror out)"
  have s0: "sources ?out0 = sources out" "buffers ?out0 = buffers out"
    by (simp_all add: throwALerror_frame)
  obtain sl ol where l: "process_loop ?n sound ?out0 = (sl, ol)"
    by (cases "process_loop ?n sound ?out0")
  have "?n \<le> length (processed_q (sources ?out0 ?src))"
    and "distinct (take ?n (processed_q (sources ?out0 ?src)))"
    and "\<forall>b \<in> set (take ?n (processed_q (sources ?out0 ?src))). buffers ?out0 b \<noteq> None"
    using d ex by (simp_all add: s0)
  from process_loop_buffers [OF nf bs l this] i s0
  have "buffers ol (processed_q (sources out ?src) ! i) =
           Some \<lparr>buf_format = mFormat sound,
                 buf_data = take (mBufferSize sound)
                   (drop (dec_pos (mDecoder sound) + i * mBufferSize sound)
                      (dec_data (mDecoder sound))),
                 buf_freq = mSampleRate sound\<rparr>"
    by (simp add: remaining_def)
  with process_after_loop [OF first p l, of ?src] show ?thesis
    by simp
qed

lemma nth_not_in_take:
  assumes "distinct xs" and "i < length xs" and "j \<le> i"
  shows "xs ! i \<notin> set (take j xs)"
proof
  assume "xs ! i \<in> set (take j xs)"
  then obtain k where "k < length (take j xs)" and "take j xs ! k = xs ! i"
    by (auto simp: in_set_conv_nth)
  then have "k < j" "k < length xs" "xs ! k = xs ! i"
    by simp_all
  with assms have "k = i"
    by (simp add: nth_eq_iff_index_eq)
  with \<open>k < j\<close> assms(3) show False
    by simp
qed

subsection \<open>Refilling the finished buffers\<close>

text \<open>
  C4: a call of \<open>process\<close> whose first check finds no error, on a sound that is not
  finishing, with distinct buffers in the queue of the voice. The \<open>i\<close>-th finished
  buffer is handled while the sound is not finishing exactly if the reads for the buffers
  before it were full, that is if \<open>i\<close> buffer sizes are not more than the bytes the
  decoder has left; \<open>got\<close> is what the read for it returns. If that read is short of
  the buffer size, the sound is finishing after the call (and it is finishing after the
  call only if one of the reads was short). If the read got anything, the buffer holds
  those bytes and is pending on the voice again; if it got nothing, the buffer is not in
  the queue of the voice.
\<close>

theorem process_refills_finished_buffers:
  assumes "fst (throwALerror out) = Inr ()"
    and "\<not> mIsFinished sound" and "0 < mBufferSize sound"
    and "distinct (queue (mSource sound) out)"
    and "\<forall>b \<in> set (processed_q (sources out (mSource sound))). buffers out b \<noteq> None"
    and "process sound out = (res, sound1, out1)"
    and "i < length (processed_q (sources out (mSource sound)))"
    and "i * mBufferSize sound \<le> remaining (mDecoder sound)"
    and "got = take (mBufferSize sound)
                 (drop (dec_pos (mDecoder sound) + i * mBufferSize sound)
                    (dec_data (mDecoder sound)))"
  shows "(length got < mBufferSize sound \<longrightarrow> mIsFinished sound1) \<and>
         mIsFinished sound1 =
           (remaining (mDecoder sound) div mBufferSize sound
              < length (processed_q (sources out (mSource sound)))) \<and>
         (got \<noteq> [] \<longrightarrow>
            buffers out1 (processed_q (sources out (mSource sound)) ! i) =
              Some \<lparr>buf_format = mFormat sound, buf_data = got, buf_freq = mSampleRate sound\<rparr> \<and>
            processed_q (sources out (mSource sound)) ! i
              \<in> set (pending_q (sources out1 (mSource sound)))) \<and>
         (got = [] \<longrightarrow>
            processed_q (sources out (mSource sound)) ! i \<notin> set (queue (mSource sound) out1))"
proof -
  let ?src = "mSource sound"
  let ?bs = "mBufferSize sound"
  let ?pq = "processed_q (sources out ?src)"
  let ?r = "remaining (mDecoder sound)"
  let ?j = "min (length ?pq) ((?r + ?bs - 1) div ?bs)"
  from assms(4) have d: "distinct ?pq" and disj: "set ?pq \<inter> set (pending_q (sources out ?src)) = {}"
    by (simp_all add: queue_def)
  from process_reads [OF assms(1,3,6)] assms(2)
  have fin: "mIsFinished sound1 = (?r div ?bs < length ?pq)"
    and q1: "processed_q (sources out1 ?src) = []"
    and p1: "pending_q (sources out1 ?src) = pending_q (sources out ?src) @ take ?j ?pq"
    by simp_all
  have len: "length got = min ?bs (?r - i * ?bs)"
    unfolding assms(9) remaining_def by (simp add: min.commute)
  have short: "mIsFinished sound1" if "length got < ?bs"
  proof -
    from that len have "?r - i * ?bs < ?bs"
      by (simp add: min_def split: if_splits)
    with assms(8) have "?r < Suc i * ?bs"
      by simp
    then have "?r div ?bs < Suc i"
      by (rule less_mult_imp_div_less)
    with assms(7) fin show ?thesis
      by simp
  qed
  have filled: "i < ?j" if "got \<noteq> []"
  proof -
    from that len assms(3) have "i * ?bs < ?r"
      by (cases "?r - i * ?bs") (simp_all add: min_def)
    then have "Suc i * ?bs \<le> ?r + ?bs - 1"
      by simp
    with assms(3) have "Suc i \<le> (?r + ?bs - 1) div ?bs"
      by (simp add: less_eq_div_iff_mult_less_eq)
    with assms(7) show ?thesis
      by simp
  qed
  have empty: "?j \<le> i" if "got = []"
  proof -
    from that len assms(3) have "?r \<le> i * ?bs"
      by (simp add: min_def split: if_splits)
    with assms(3) have "?r + ?bs - 1 < Suc i * ?bs"
      by simp
    then have "(?r + ?bs - 1) div ?bs < Suc i"
      by (rule less_mult_imp_div_less)
    then show ?thesis
      by simp
  qed
  have "buffers out1 (?pq ! i) =
      Some \<lparr>buf_format = mFormat sound, buf_data = got, buf_freq = mSampleRate sound\<rparr> \<and>
      ?pq ! i \<in> set (pending_q (sources out1 ?src))" if ne: "got \<noteq> []"
  proof -
    from filled [OF ne] have ij: "i < ?j" .
    then have "i < (?r + ?bs - 1) div ?bs"
      by simp
    from process_buffers [OF assms(1,2,3) d assms(5,6,7) this]
    have "buffers out1 (?pq ! i) =
        Some \<lparr>buf_format = mFormat sound, buf_data = got, buf_freq = mSampleRate sound\<rparr>"
      by (simp add: assms(9))
    moreover from ij assms(7) have "?pq ! i \<in> set (take ?j ?pq)"
      by (metis in_set_conv_nth length_take min_less_iff_conj nth_take)
    ultimately show ?thesis
      using p1 by simp
  qed
  moreover have "?pq ! i \<notin> set (queue ?src out1)" if e: "got = []"
  proof -
    from nth_not_in_take [OF d assms(7) empty [OF e]] have "?pq ! i \<notin> set (take ?j ?pq)" .
    moreover from assms(7) disj have "?pq ! i \<notin> set (pending_q (sources out ?src))"
      by (meson disjoint_iff nth_mem)
    ultimately show ?thesis
      using q1 p1 by (simp add: queue_def)
  qed
  ultimately show ?thesis
    using short fin by blast
qed


text \<open>
  Three finished buffers. With five bytes left the first buffer gets four bytes and the
  second the last byte, a short read; with four bytes left the read for the second buffer
  gets nothing and the buffer stays off the queue.
\<close>

theorem process_refills_finished_buffers_witness:
  "fst (throwALerror three_played_output) = Inr () \<and>
   \<not> mIsFinished (playing_sound 4) \<and>
   distinct (queue 7 three_played_output) \<and>
   processed_q (sources three_played_output 7) = [1, 2, 3] \<and>
   remaining (mDecoder (playing_sound 4)) = 5 \<and>
   mIsFinished (fst (snd (process (playing_sound 4) three_played_output))) \<and>
   buffers (snd (snd (process (playing_sound 4) three_played_output))) 1 =
     Some \<lparr>buf_format = AL_FORMAT_MONO8, buf_data = [5, 6, 7, 8], buf_freq = 32\<rparr> \<and>
   buffers (snd (snd (process (playing_sound 4) three_played_output))) 2 =
     Some \<lparr>buf_format = AL_FORMAT_MONO8, buf_data = [9], buf_freq = 32\<rparr> \<and>
   2 \<in> set (pending_q (sources (snd (snd (process (playing_sound 4) three_played_output))) 7)) \<and>
   remaining (mDecoder (playing_sound 5)) = 4 \<and>
   mIsFinished (fst (snd (process (playing_sound 5) three_played_output))) \<and>
   2 \<notin> set (queue 7 (snd (snd (process (playing_sound 5) three_played_output))))"
proof -
  have h: "fst (throwALerror three_played_output) = Inr ()"
    "distinct (queue 7 three_played_output)"
    "processed_q (sources three_played_output 7) = [1, 2, 3]"
    "\<forall>b \<in> set (processed_q (sources three_played_output 7)). buffers three_played_output b \<noteq> None"
    by (simp_all add: throwALerror_def alGetError_def queue_def more_defs state_defs)
  have s: "\<not> mIsFinished (playing_sound pos)" "0 < mBufferSize (playing_sound pos)"
    "mSource (playing_sound pos) = 7" "mBufferSize (playing_sound pos) = 4"
    "remaining (mDecoder (playing_sound pos)) = 9 - pos"
    "mFormat (playing_sound pos) = AL_FORMAT_MONO8" "mSampleRate (playing_sound pos) = 32"
    "dec_pos (mDecoder (playing_sound pos)) = pos"
    "dec_data (mDecoder (playing_sound pos)) = [1, 2, 3, 4, 5, 6, 7, 8, 9]" for pos
    by (simp_all add: more_defs state_defs)
  note a0 = process_refills_finished_buffers [where sound = "playing_sound 4"
      and out = three_played_output and i = 0 and got = "[5, 6, 7, 8]"
      and res = "fst (process (playing_sound 4) three_played_output)"
      and ?sound1.0 = "fst (snd (process (playing_sound 4) three_played_output))"
      and ?out1.0 = "snd (snd (process (playing_sound 4) three_played_output))"]
  note a1 = process_refills_finished_buffers [where sound = "playing_sound 4"
      and out = three_played_output and i = 1 and got = "[9]"
      and res = "fst (process (playing_sound 4) three_played_output)"
      and ?sound1.0 = "fst (snd (process (playing_sound 4) three_played_output))"
      and ?out1.0 = "snd (snd (process (playing_sound 4) three_played_output))"]
  note b1 = process_refills_finished_buffers [where sound = "playing_sound 5"
      and out = three_played_output and i = 1 and got = "[]"
      and res = "fst (process (playing_sound 5) three_played_output)"
      and ?sound1.0 = "fst (snd (process (playing_sound 5) three_played_output))"
      and ?out1.0 = "snd (snd (process (playing_sound 5) three_played_output))"]
  from a0 h have "buffers (snd (snd (process (playing_sound 4) three_played_output))) 1 =
     Some \<lparr>buf_format = AL_FORMAT_MONO8, buf_data = [5, 6, 7, 8], buf_freq = 32\<rparr>"
    by (simp add: s)
  moreover from a1 h
  have "mIsFinished (fst (snd (process (playing_sound 4) three_played_output)))"
    and "buffers (snd (snd (process (playing_sound 4) three_played_output))) 2 =
     Some \<lparr>buf_format = AL_FORMAT_MONO8, buf_data = [9], buf_freq = 32\<rparr>"
    and "2 \<in> set (pending_q (sources (snd (snd (process (playing_sound 4)
      three_played_output))) 7))"
    by (simp_all add: s)
  moreover from b1 h
  have "mIsFinished (fst (snd (process (playing_sound 5) three_played_output)))"
    and "2 \<notin> set (queue 7 (snd (snd (process (playing_sound 5) three_played_output))))"
    by (simp_all add: s)
  ultimately show ?thesis
    using h by (simp add: s)
qed


subsection \<open>A finishing sound\<close>

lemma queue_throwALerror: "queue src (snd (throwALerror out)) = queue src out"
  by (simp add: queue_def throwALerror_def alGetError_def Let_def split: list.splits)

lemma queue_hardware: "queue src (hardware src k state errs out) = queue src out"
  by (simp add: queue_def hardware_def on_source_def)

lemma queue_process_restart:
  "queue src (snd (process_restart st sound out)) = queue src out"
  by (simp add: process_restart_def throwALerror_def alGetError_def alSourcePlay_def
      alGetSourcei_AL_BUFFERS_QUEUED_def on_source_def queue_def Let_def split: list.splits)

lemma process_buffer_finishing:
  "mIsFinished sound \<Longrightarrow> process_buffer sound out = (sound1, out1) \<Longrightarrow>
     \<exists>k. queue (mSource sound) out1 = drop k (queue (mSource sound) out)"
proof (cases "processed_q (sources out (mSource sound))")
  case Nil
  assume "mIsFinished sound" "process_buffer sound out = (sound1, out1)"
  with Nil have "out1 = out"
    by (simp add: process_buffer_def alSourceUnqueueBuffers_def)
  then have "queue (mSource sound) out1 = drop 0 (queue (mSource sound) out)"
    by simp
  then show ?thesis ..
next
  case (Cons b rest)
  assume "mIsFinished sound" "process_buffer sound out = (sound1, out1)"
  with Cons have "queue (mSource sound) out1 = drop 1 (queue (mSource sound) out)"
    by (auto simp: process_buffer_def alSourceUnqueueBuffers_def on_source_def queue_def)
  then show ?thesis ..
qed

lemma process_loop_finishing:
  "mIsFinished sound \<Longrightarrow> process_loop n sound out = (sound1, out1) \<Longrightarrow>
     \<exists>k. queue (mSource sound) out1 = drop k (queue (mSource sound) out)"
proof (induction n arbitrary: out)
  case 0
  then have "queue (mSource sound) out1 = drop 0 (queue (mSource sound) out)"
    by simp
  then show ?case ..
next
  case (Suc n)
  obtain sound' out' where b: "process_buffer sound out = (sound', out')"
    by (cases "process_buffer sound out")
  from process_buffer_frame [OF b] Suc.prems(1) have same: "sound' = sound"
    by simp
  with Suc.prems b have l: "process_loop n sound out' = (sound1, out1)"
    by simp
  from process_buffer_finishing [OF Suc.prems(1) b] obtain j where
    j: "queue (mSource sound) out' = drop j (queue (mSource sound) out)" ..
  from Suc.IH [OF Suc.prems(1) l] obtain k where
    "queue (mSource sound) out1 = drop k (queue (mSource sound) out')" ..
  with j have "queue (mSource sound) out1 = drop (k + j) (queue (mSource sound) out)"
    by simp
  then show ?case ..
qed

lemma process_finishing:
  assumes fin: "mIsFinished sound" and p: "process sound out = (r, sound1, out1)"
  shows "sound1 = sound \<and> (\<exists>k. queue (mSource sound) out1 = drop k (queue (mSource sound) out))"
proof -
  let ?src = "mSource sound"
  let ?n = "alGetSourcei_AL_BUFFERS_PROCESSED ?src out"
  let ?out0 = "snd (throwALerror out)"
  have q0: "queue ?src ?out0 = queue ?src out"
    by (rule queue_throwALerror)
  obtain r2 sound2 out2 where refill: "process_refill ?n sound ?out0 = (r2, sound2, out2)"
    by (metis prod_cases3)
  from process_refill_frame [OF refill] fin have s2: "sound2 = sound"
    by simp
  have q2: "\<exists>k. queue ?src out2 = drop k (queue ?src out)"
  proof (cases "0 < ?n")
    case True
    obtain sl ol where l: "process_loop ?n sound ?out0 = (sl, ol)"
      by (cases "process_loop ?n sound ?out0")
    from process_loop_finishing [OF fin l] obtain k where
      "queue ?src ol = drop k (queue ?src ?out0)" ..
    moreover from refill True l have "out2 = snd (throwALerror ol)"
      by (simp add: process_refill_def split: prod.splits)
    ultimately have "queue ?src out2 = drop k (queue ?src out)"
      by (simp add: queue_throwALerror q0)
    then show ?thesis ..
  next
    case False
    with refill have "out2 = ?out0"
      by (simp add: process_refill_def)
    with q0 have "queue ?src out2 = drop 0 (queue ?src out)"
      by simp
    then show ?thesis ..
  qed
  have q3: "queue ?src (snd (process_restart st sound out2)) = queue ?src out2" for st
    by (rule queue_process_restart)
  show ?thesis
  proof (cases "fst (throwALerror out)")
    case (Inl e)
    with p have "sound1 = sound" "out1 = ?out0"
      by (auto simp: process_def Let_def split: prod.splits)
    with q0 have "queue ?src out1 = drop 0 (queue ?src out)"
      by simp
    with \<open>sound1 = sound\<close> show ?thesis by blast
  next
    case (Inr u)
    show ?thesis
    proof (cases r2)
      case (Inl e)
      with p Inr refill s2 have "sound1 = sound" "out1 = out2"
        by (auto simp: process_def Let_def split: prod.splits)
      with q2 show ?thesis by simp
    next
      case r2: (Inr u2)
      from p Inr refill s2 r2
      have "sound1 = sound"
        and "out1 = snd (process_restart (alGetSourcei_AL_SOURCE_STATE ?src out) sound out2)"
        by (auto simp: process_def Let_def split: prod.splits sum.splits)
      with q2 q3 show ?thesis by simp
    qed
  qed
qed

text \<open>
  From a finishing sound on, over any history of calls of \<open>process\<close> with the library
  finishing buffers, changing the play state and reporting errors in between, the decoder
  is as it was, the sound stays finishing, and the queue only loses buffers at its front.
\<close>

lemma finishing_history:
  "mIsFinished sound \<Longrightarrow> run_events evs sound out = (sound1, out1) \<Longrightarrow>
     mDecoder sound1 = mDecoder sound \<and> mIsFinished sound1 \<and>
     (\<exists>k. queue (mSource sound) out1 = drop k (queue (mSource sound) out))"
proof (induction evs arbitrary: out)
  case Nil
  then have "queue (mSource sound) out1 = drop 0 (queue (mSource sound) out)"
    by simp
  with Nil show ?case by (auto intro: exI [of _ 0])
next
  case (Cons ev evs)
  show ?case
  proof (cases ev)
    case Process
    obtain r s' out' where p: "process sound out = (r, s', out')"
      by (metis prod_cases3)
    from process_finishing [OF Cons.prems(1) p] obtain j where
      s': "s' = sound" and j: "queue (mSource sound) out' = drop j (queue (mSource sound) out)"
      by blast
    from Cons.prems(2) Process p s' have "run_events evs sound out' = (sound1, out1)"
      by simp
    from Cons.IH [OF Cons.prems(1) this] obtain k where
      "mDecoder sound1 = mDecoder sound" "mIsFinished sound1"
      "queue (mSource sound) out1 = drop k (queue (mSource sound) out')"
      by blast
    with j have "mDecoder sound1 = mDecoder sound \<and> mIsFinished sound1 \<and>
        queue (mSource sound) out1 = drop (k + j) (queue (mSource sound) out)"
      by simp
    then show ?thesis by blast
  next
    case (Hardware n state errs)
    with Cons.prems(2)
    have "run_events evs sound (hardware (mSource sound) n state errs out) = (sound1, out1)"
      by simp
    from Cons.IH [OF Cons.prems(1) this] show ?thesis
      by (simp add: queue_hardware)
  qed
qed

text \<open>
  C3: once a sound is finishing, \<open>process\<close> issues no read of the decoder and queues no
  buffer again. From a finishing sound on, over any history of calls of \<open>process\<close> with
  the library finishing buffers, changing the play state and reporting errors in between,
  the decoder is never called (it is as it was, its record of calls included), the sound
  stays finishing, and the queue of the voice only loses buffers at its front. And within
  the call in which a sound becomes finishing: a call whose first check throws leaves the
  sound alone; any other call, with \<open>n\<close> finished buffers and \<open>r\<close> bytes left in the
  decoder, issues \<open>min n (r div size + 1)\<close> reads and nothing else, so the full reads
  and the one short read that makes the sound finishing, and none after it; and the queue
  is then the pending buffers followed by the first finished buffers whose reads got
  anything, the buffers taken off after that staying off. For a sound that is finishing at
  the start both numbers are 0.
\<close>

theorem finishing_never_reads_nor_requeues:
  "(mIsFinished sound \<longrightarrow> run_events evs sound out = (sound1, out1) \<longrightarrow>
      mDecoder sound1 = mDecoder sound \<and> mIsFinished sound1 \<and>
      (\<exists>k. queue (mSource sound) out1 = drop k (queue (mSource sound) out))) \<and>
   (fst (throwALerror out') \<noteq> Inr () \<longrightarrow> fst (snd (process sound' out')) = sound') \<and>
   (fst (throwALerror out') = Inr () \<longrightarrow> 0 < mBufferSize sound' \<longrightarrow>
    process sound' out' = (res, sound2, out2) \<longrightarrow>
      dec_calls (mDecoder sound2) =
        dec_calls (mDecoder sound') @
          replicate (if mIsFinished sound' then 0
                     else min (length (processed_q (sources out' (mSource sound'))))
                            (remaining (mDecoder sound') div mBufferSize sound' + 1))
            (Read (mBufferSize sound')) \<and>
      mIsFinished sound2 =
        (mIsFinished sound' \<or>
         remaining (mDecoder sound') div mBufferSize sound'
           < length (processed_q (sources out' (mSource sound')))) \<and>
      queue (mSource sound') out2 =
        pending_q (sources out' (mSource sound')) @
          take (if mIsFinished sound' then 0
                else min (length (processed_q (sources out' (mSource sound'))))
                       ((remaining (mDecoder sound') + mBufferSize sound' - 1)
                          div mBufferSize sound'))
            (processed_q (sources out' (mSource sound'))))"
proof -
  have history: "mDecoder sound1 = mDecoder sound \<and> mIsFinished sound1 \<and>
      (\<exists>k. queue (mSource sound) out1 = drop k (queue (mSource sound) out))"
    if "mIsFinished sound" and "run_events evs sound out = (sound1, out1)"
    using that by (rule finishing_history)
  have thrown: "fst (snd (process sound' out')) = sound'" if "fst (throwALerror out') \<noteq> Inr ()"
    using that by (cases "throwALerror out'") (auto simp: process_def Let_def split: sum.splits)
  have call: "dec_calls (mDecoder sound2) =
        dec_calls (mDecoder sound') @
          replicate (if mIsFinished sound' then 0
                     else min (length (processed_q (sources out' (mSource sound'))))
                            (remaining (mDecoder sound') div mBufferSize sound' + 1))
            (Read (mBufferSize sound')) \<and>
      mIsFinished sound2 =
        (mIsFinished sound' \<or>
         remaining (mDecoder sound') div mBufferSize sound'
           < length (processed_q (sources out' (mSource sound')))) \<and>
      queue (mSource sound') out2 =
        pending_q (sources out' (mSource sound')) @
          take (if mIsFinished sound' then 0
                else min (length (processed_q (sources out' (mSource sound'))))
                       ((remaining (mDecoder sound') + mBufferSize sound' - 1)
                          div mBufferSize sound'))
            (processed_q (sources out' (mSource sound')))"
    if "fst (throwALerror out') = Inr ()" and "0 < mBufferSize sound'"
      and "process sound' out' = (res, sound2, out2)"
    using process_reads [OF that] by (simp add: queue_def)
  from history thrown call show ?thesis
    by blast
qed

text \<open>
  A finishing sound with one buffer played: \<open>process\<close> takes it off, the voice plays two
  more and stops, \<open>process\<close> takes these off and starts the voice again on the last three.
  And a sound with one byte left and three finished buffers: \<open>process\<close> reads once, queues
  the first buffer again and leaves the other two off the queue.
\<close>

theorem finishing_never_reads_nor_requeues_witness:
  "mIsFinished stream_sound \<and>
   fst (run_events [Process, Hardware 2 AL_STOPPED [], Process] stream_sound draining_output)
     = stream_sound \<and>
   queue 7 (snd (run_events [Process, Hardware 2 AL_STOPPED [], Process] stream_sound
                   draining_output)) = [4, 5, 6] \<and>
   queue 7 draining_output = [1, 2, 3, 4, 5, 6] \<and>
   fst (throwALerror three_played_output) = Inr () \<and>
   processed_q (sources three_played_output 7) = [1, 2, 3] \<and>
   remaining (mDecoder (playing_sound 8)) = 1 \<and>
   dec_calls (mDecoder (fst (snd (process (playing_sound 8) three_played_output)))) = [Read 4] \<and>
   mIsFinished (fst (snd (process (playing_sound 8) three_played_output))) \<and>
   queue 7 (snd (snd (process (playing_sound 8) three_played_output))) = [4, 5, 6, 1] \<and>
   fst (throwALerror (three_played_output\<lparr>al_errors := [40963]\<rparr>)) \<noteq> Inr () \<and>
   fst (snd (process (playing_sound 8) (three_played_output\<lparr>al_errors := [40963]\<rparr>)))
     = playing_sound 8"
proof -
  let ?evs = "[Process, Hardware 2 AL_STOPPED [], Process]"
  have old: "mIsFinished stream_sound \<and>
      fst (run_events ?evs stream_sound draining_output) = stream_sound \<and>
      queue 7 (snd (run_events ?evs stream_sound draining_output)) = [4, 5, 6] \<and>
      queue 7 draining_output = [1, 2, 3, 4, 5, 6]"
    using finishing_never_reads_nor_requeues [where sound = stream_sound and evs = ?evs
        and out = draining_output
        and ?sound1.0 = "fst (run_events ?evs stream_sound draining_output)"
        and ?out1.0 = "snd (run_events ?evs stream_sound draining_output)"]
    by (simp add: process_def process_refill_def process_restart_def process_buffer_def
        hardware_def queue_def al_defs state_defs Let_def numeral_2_eq_2)
  have h: "fst (throwALerror three_played_output) = Inr ()"
    "processed_q (sources three_played_output 7) = [1, 2, 3]"
    "pending_q (sources three_played_output 7) = [4, 5, 6]"
    "fst (throwALerror (three_played_output\<lparr>al_errors := [40963]\<rparr>)) \<noteq> Inr ()"
    by (simp_all add: throwALerror_def alGetError_def more_defs state_defs)
  have s: "\<not> mIsFinished (playing_sound 8)" "mSource (playing_sound 8) = 7"
    "mBufferSize (playing_sound 8) = 4" "remaining (mDecoder (playing_sound 8)) = 1"
    "dec_calls (mDecoder (playing_sound 8)) = []"
    by (simp_all add: more_defs state_defs)
  from finishing_never_reads_nor_requeues [where sound' = "playing_sound 8"
      and out' = three_played_output
      and res = "fst (process (playing_sound 8) three_played_output)"
      and ?sound2.0 = "fst (snd (process (playing_sound 8) three_played_output))"
      and ?out2.0 = "snd (snd (process (playing_sound 8) three_played_output))"] h
  have "dec_calls (mDecoder (fst (snd (process (playing_sound 8) three_played_output))))
      = [Read 4]"
    and "mIsFinished (fst (snd (process (playing_sound 8) three_played_output)))"
    and "queue 7 (snd (snd (process (playing_sound 8) three_played_output))) = [4, 5, 6, 1]"
    by (simp_all add: s)
  moreover from finishing_never_reads_nor_requeues [where sound' = "playing_sound 8"
      and out' = "three_played_output\<lparr>al_errors := [40963]\<rparr>"] h
  have "fst (snd (process (playing_sound 8) (three_played_output\<lparr>al_errors := [40963]\<rparr>)))
     = playing_sound 8"
    by blast
  ultimately show ?thesis
    using old h s by simp
qed

subsection \<open>Restarting a stalled voice\<close>

text \<open>
  C5: in a call of \<open>process\<close> with no error of the library to report, let \<open>out1\<close> be the
  state once the finished buffers have been handled. If the play state read at the start
  of the call is neither playing nor paused and the voice has a buffer queued, the call
  ends with \<open>alSourcePlay\<close> on the voice, which is playing afterwards; otherwise the
  state is left as it is and the play state is the one read at the start.
\<close>

theorem process_restarts_stalled_voice:
  assumes "al_errors out = []"
    and "process_refill (alGetSourcei_AL_BUFFERS_PROCESSED (mSource sound) out) sound out
           = (r, sound1, out1)"
  shows "process sound out =
           (Inr (\<not> mIsFinished sound1), sound1,
            if source_state (sources out (mSource sound)) \<noteq> AL_PLAYING \<and>
               source_state (sources out (mSource sound)) \<noteq> AL_PAUSED \<and>
               0 < alGetSourcei_AL_BUFFERS_QUEUED (mSource sound) out1
            then alSourcePlay (mSource sound) out1 else out1) \<and>
         source_state (sources (snd (snd (process sound out))) (mSource sound)) =
           (if source_state (sources out (mSource sound)) \<noteq> AL_PLAYING \<and>
               source_state (sources out (mSource sound)) \<noteq> AL_PAUSED \<and>
               0 < alGetSourcei_AL_BUFFERS_QUEUED (mSource sound) out1
            then AL_PLAYING else source_state (sources out (mSource sound)))"
proof -
  from process_refill_frame [OF assms(2)] assms(1)
  have f: "r = Inr ()" "al_errors out1 = []" "mSource sound1 = mSource sound"
    "source_state (sources out1 (mSource sound)) = source_state (sources out (mSource sound))"
    by auto
  have p: "process sound out =
           (Inr (\<not> mIsFinished sound1), sound1,
            if source_state (sources out (mSource sound)) \<noteq> AL_PLAYING \<and>
               source_state (sources out (mSource sound)) \<noteq> AL_PAUSED \<and>
               0 < alGetSourcei_AL_BUFFERS_QUEUED (mSource sound) out1
            then alSourcePlay (mSource sound) out1 else out1)"
    using assms f
    by (simp add: process_def Let_def throwALerror_ok process_restart_ok
        alGetSourcei_AL_SOURCE_STATE_def)
  have "source_state (sources (snd (snd (process sound out))) (mSource sound)) =
           (if source_state (sources out (mSource sound)) \<noteq> AL_PLAYING \<and>
               source_state (sources out (mSource sound)) \<noteq> AL_PAUSED \<and>
               0 < alGetSourcei_AL_BUFFERS_QUEUED (mSource sound) out1
            then AL_PLAYING else source_state (sources out (mSource sound)))"
    unfolding p using f(4) by (simp add: alSourcePlay_def on_source_def)
  with p show ?thesis by simp
qed

text \<open>
  The stopped voice with two processed buffers and a sound that still has data: both
  buffers are refilled and queued again, and the voice is started.
\<close>

theorem process_restarts_stalled_voice_witness:
  "al_errors stalled_output = [] \<and>
   source_state (sources stalled_output 7) = AL_STOPPED \<and>
   alGetSourcei_AL_BUFFERS_QUEUED 7
     (snd (snd (process_refill 2 (stream_sound\<lparr>mIsFinished := False\<rparr>) stalled_output))) = 2 \<and>
   fst (process (stream_sound\<lparr>mIsFinished := False\<rparr>) stalled_output) = Inr True \<and>
   source_state (sources (snd (snd (process (stream_sound\<lparr>mIsFinished := False\<rparr>)
                                        stalled_output))) 7) = AL_PLAYING"
  using process_restarts_stalled_voice [of stalled_output "stream_sound\<lparr>mIsFinished := False\<rparr>"
      "fst (process_refill 2 (stream_sound\<lparr>mIsFinished := False\<rparr>) stalled_output)"
      "fst (snd (process_refill 2 (stream_sound\<lparr>mIsFinished := False\<rparr>) stalled_output))"
      "snd (snd (process_refill 2 (stream_sound\<lparr>mIsFinished := False\<rparr>) stalled_output))"]
  by (simp add: process_def process_refill_def process_restart_def process_buffer_def
      dec_read_def al_defs state_defs Let_def numeral_2_eq_2)

subsection \<open>isPlaying\<close>

lemma play_fill_frame:
  "play_fill bufs sound out = (sound1, out1) \<Longrightarrow>
     al_errors out1 = al_errors out \<and> sources out1 = sources out \<and>
     mStreams out1 = mStreams out \<and> mFreeSources out1 = mFreeSources out \<and>
     mSource sound1 = mSource sound \<and> mBuffers sound1 = mBuffers sound \<and>
     mIsFinished sound1 = mIsFinished sound"
  by (induction bufs sound out rule: play_fill.induct)
     (auto simp: alBufferData_def Let_def split: prod.splits if_splits)

lemma isPlaying_ok:
  "al_errors out = [] \<Longrightarrow>
     isPlaying sound out =
       (Inr (source_state (sources out (mSource sound)) = AL_PLAYING \<or> \<not> mIsFinished sound), out)"
  by (simp add: isPlaying_def throwALerror_ok alGetSourcei_AL_SOURCE_STATE_def)

lemma play_ok:
  assumes "al_errors out = []"
  shows "\<exists>sound1 out1. play this sound out = (Inr (), sound1, out1) \<and> \<not> mIsFinished sound1"
proof -
  let ?out2 = "alSourcei_AL_BUFFER (mSource sound) 0 (alSourceStop (mSource sound) out)"
  have e2: "al_errors ?out2 = []"
    using assms by (simp add: alSourcei_AL_BUFFER_def alSourceStop_def on_source_def)
  obtain sound1 out4 where fill: "play_fill (mBuffers sound) sound ?out2 = (sound1, out4)"
    by (cases "play_fill (mBuffers sound) sound ?out2")
  from play_fill_frame [OF fill] e2 have e4: "al_errors out4 = []"
    by simp
  then have e7: "al_errors (alSourcePlay (mSource sound1)
      (alSourceQueueBuffers (mSource sound1) (mBuffers sound1) out4)) = []"
    by (simp add: alSourcePlay_def alSourceQueueBuffers_def on_source_def)
  show ?thesis
    using e2 fill e4 e7 by (simp add: play_def Let_def throwALerror_ok)
qed

text \<open>
  C9: with no error of the library to report, \<open>isPlaying\<close> returns true exactly if the
  voice is playing or \<open>mIsFinished\<close> is not set; and \<open>play\<close> returns and leaves a sound
  for which \<open>isPlaying\<close> returns true in every state of the library with no error to
  report, whatever the play state of the voice.
\<close>

theorem isPlaying_hardware_or_not_finished:
  "(al_errors out = [] \<longrightarrow>
      fst (isPlaying sound out) =
        Inr (source_state (sources out (mSource sound)) = AL_PLAYING \<or> \<not> mIsFinished sound)) \<and>
   (al_errors out = [] \<longrightarrow>
      (\<exists>sound1 out1. play this sound out = (Inr (), sound1, out1) \<and>
         (\<forall>out2. al_errors out2 = [] \<longrightarrow> fst (isPlaying sound1 out2) = Inr True)))"
proof (intro conjI impI)
  assume "al_errors out = []"
  then show "fst (isPlaying sound out) =
      Inr (source_state (sources out (mSource sound)) = AL_PLAYING \<or> \<not> mIsFinished sound)"
    by (simp add: isPlaying_ok)
next
  assume "al_errors out = []"
  from play_ok [OF this] obtain sound1 out1 where
    "play this sound out = (Inr (), sound1, out1)" and "\<not> mIsFinished sound1"
    by blast
  then show "\<exists>sound1 out1. play this sound out = (Inr (), sound1, out1) \<and>
         (\<forall>out2. al_errors out2 = [] \<longrightarrow> fst (isPlaying sound1 out2) = Inr True)"
    by (auto simp: isPlaying_ok)
qed

text \<open>
  The sound as constructed is not playing; after \<open>play\<close> it is, also in a state of the
  library where the voice is still in its initial state.
\<close>

theorem isPlaying_hardware_or_not_finished_witness:
  "al_errors idle_output = [] \<and>
   source_state (sources idle_output 7) = AL_INITIAL \<and>
   fst (isPlaying stream_sound idle_output) = Inr False \<and>
   fst (play 0 stream_sound idle_output) = Inr () \<and>
   fst (isPlaying (fst (snd (play 0 stream_sound idle_output))) idle_output) = Inr True"
proof -
  have e: "al_errors idle_output = []"
    by (simp add: idle_output_def)
  from isPlaying_hardware_or_not_finished [of idle_output stream_sound 0] e
  obtain sound1 out1 where
    a: "fst (isPlaying stream_sound idle_output) =
          Inr (source_state (sources idle_output (mSource stream_sound)) = AL_PLAYING \<or>
               \<not> mIsFinished stream_sound)"
    and p: "play 0 stream_sound idle_output = (Inr (), sound1, out1)"
    and q: "\<forall>out2. al_errors out2 = [] \<longrightarrow> fst (isPlaying sound1 out2) = Inr True"
    by blast
  from q e have "fst (isPlaying sound1 idle_output) = Inr True"
    by blast
  with a p e show ?thesis
    by (simp add: state_defs)
qed

subsection \<open>The voice of a sound whose construction fails\<close>

text \<open>
  C2 fails for the streaming sound: when the \<^verbatim>\<open>try\<close> block of its constructor throws,
  the constructor's handler puts the voice back into the free list, and the handler of
  \<open>streamSound\<close> (and of \<open>streamSound3D\<close>) puts it back once more. With the voices 7 and
  8 free, voice 8 is checked out and the list ends as 7, 8, 8, whether \<^verbatim>\<open>getInfo\<close>
  throws or reports a format that is not in the table. \<open>playSound\<close>, on the same input,
  puts the voice back once.
\<close>

theorem streamSound_failure_releases_voice_twice:
  "fst (streamSound h this fname volume pitch (two_voices no_info))
     = Inl (Runtime_error ''Unsupported channel layout'') \<and>
   mFreeSources (snd (streamSound h this fname volume pitch (two_voices no_info))) = [7, 8, 8] \<and>
   mFreeSources (snd (streamSound h this fname volume pitch (two_voices surround))) = [7, 8, 8] \<and>
   mFreeSources (snd (streamSound3D h this fname pos volume pitch min_dist max_dist
     (two_voices no_info))) = [7, 8, 8] \<and>
   mFreeSources (snd (streamSound3D h this fname pos volume pitch min_dist max_dist
     (two_voices surround))) = [7, 8, 8] \<and>
   mFreeSources (snd (playSound h fname volume pitch loop (two_voices no_info))) = [7, 8]"
  by (simp add: streamSound_def streamSound3D_def streamSound_try_def OpenAL_SoundStream_new_def
      playSound_def playSound_try_def LoadBuffer_def getALFormat_def fmtlist_def
      dec_getInfo_def sNumBuffers_def al_defs state_defs Let_def split: prod.splits)

subsection \<open>The axes of positions and directions\<close>

lemma sources_throwALerror: "sources (snd (throwALerror w)) = sources w"
  by (simp add: throwALerror_def alGetError_def Let_def split: list.splits)

lemma playSound_try_source:
  "playSound_try h fname src out = (Inr sound, out1) \<Longrightarrow> mSource_Sound sound = src"
  by (auto simp: playSound_try_def Let_def split: sum.splits prod.splits if_splits)

lemma playSound_start_position:
  "playSound_start sound out = (Inr sound1, out1) \<Longrightarrow>
     sound1 = sound \<and> source3f (sources out1 src) = source3f (sources out src)"
  by (auto simp: playSound_start_def al_defs Let_def split: sum.splits prod.splits list.splits
      if_splits)

lemma OpenAL_SoundStream_new_source:
  "OpenAL_SoundStream_new h src decoder out = (Inr sound, out1) \<Longrightarrow> mSource sound = src"
  by (auto simp: OpenAL_SoundStream_new_def Let_def split: sum.splits prod.splits if_splits)

lemma streamSound_try_source:
  "streamSound_try h fname src out = (Inr sound, out1) \<Longrightarrow> mSource sound = src"
  by (auto simp: streamSound_try_def Let_def split: sum.splits prod.splits
      dest: OpenAL_SoundStream_new_source)

lemma play_position:
  assumes "play this sound out = (Inr u, sound1, out1)"
  shows "mSource sound1 = mSource sound \<and> source3f (sources out1 src) = source3f (sources out src)"
proof -
  let ?out2 = "alSourcei_AL_BUFFER (mSource sound) 0 (alSourceStop (mSource sound) out)"
  let ?out3 = "snd (throwALerror ?out2)"
  obtain sf out4 where fill: "play_fill (mBuffers sound) sound ?out3 = (sf, out4)"
    by (cases "play_fill (mBuffers sound) sound ?out3")
  let ?out5 = "snd (throwALerror out4)"
  let ?out7 = "alSourcePlay (mSource sf) (alSourceQueueBuffers (mSource sf) (mBuffers sf) ?out5)"
  from assms fill have s1: "sound1 = sf\<lparr>mIsFinished := False\<rparr>"
    and o1: "out1 = StreamThread_add this (snd (throwALerror ?out7))"
    by (auto simp: play_def Let_def split: sum.splits prod.splits)
  have "source3f (sources ?out2 src) = source3f (sources out src)"
    by (simp add: alSourcei_AL_BUFFER_def alSourceStop_def on_source_def)
  moreover from play_fill_frame [OF fill]
  have "sources out4 = sources ?out3" and "mSource sf = mSource sound"
    by simp_all
  moreover have "source3f (sources ?out7 src) = source3f (sources ?out5 src)"
    by (simp add: alSourcePlay_def alSourceQueueBuffers_def on_source_def)
  ultimately show ?thesis
    using s1 o1 by (simp add: sources_throwALerror StreamThread_add_def)
qed

lemma streamSound_start_position:
  "streamSound_start this sound out = (Inr sound1, out1) \<Longrightarrow>
     mSource sound1 = mSource sound \<and> source3f (sources out1 src) = source3f (sources out src)"
  using sources_throwALerror [of out]
  by (auto simp: streamSound_start_def split: sum.splits prod.splits dest!: play_position)

text \<open>
  C8: every position and direction given to the library has its axes changed from
  \<open>(x, y, z)\<close> to \<open>(x, z, - y)\<close>: the position of \<open>update\<close> of either sound, the position
  and the two directions of \<open>updateListener\<close>, and the position of the voice of the sound
  that \<open>playSound3D\<close> or \<open>streamSound3D\<close> returns.
\<close>

theorem positions_are_remapped:
  "source3f (sources (snd (update sound (x, y, z) out)) (mSource sound)) AL_POSITION
     = (x, z, - y) \<and>
   source3f (sources (snd (OpenAL_Sound_update oneshot (x, y, z) out)) (mSource_Sound oneshot))
       AL_POSITION
     = (x, z, - y) \<and>
   listener3f (snd (updateListener (x, y, z) (ax, ay, az) (ux, uy, uz) out)) AL_POSITION
     = (x, z, - y) \<and>
   listenerfv (snd (updateListener (x, y, z) (ax, ay, az) (ux, uy, uz) out)) AL_ORIENTATION
     = [ax, az, - ay, ux, uz, - uy] \<and>
   (\<forall>played out1.
      playSound3D h fname (x, y, z) volume pitch min_dist max_dist loop out = (Inr played, out1)
      \<longrightarrow> source3f (sources out1 (mSource_Sound played)) AL_POSITION = (x, z, - y)) \<and>
   (\<forall>streamed out1.
      streamSound3D h this fname (x, y, z) volume pitch min_dist max_dist out = (Inr streamed, out1)
      \<longrightarrow> source3f (sources out1 (mSource streamed)) AL_POSITION = (x, z, - y))"
proof (intro conjI allI impI)
  show "source3f (sources (snd (update sound (x, y, z) out)) (mSource sound)) AL_POSITION
      = (x, z, - y)"
    by (simp add: update_def Let_def sources_throwALerror alSource3f_def on_source_def)
  show "source3f (sources (snd (OpenAL_Sound_update oneshot (x, y, z) out))
      (mSource_Sound oneshot)) AL_POSITION = (x, z, - y)"
    by (simp add: OpenAL_Sound_update_def Let_def sources_throwALerror alSource3f_def
        on_source_def)
  show "listener3f (snd (updateListener (x, y, z) (ax, ay, az) (ux, uy, uz) out)) AL_POSITION
      = (x, z, - y)"
    by (simp add: updateListener_def Let_def al_defs split: list.splits)
  show "listenerfv (snd (updateListener (x, y, z) (ax, ay, az) (ux, uy, uz) out)) AL_ORIENTATION
      = [ax, az, - ay, ux, uz, - uy]"
    by (simp add: updateListener_def Let_def al_defs split: list.splits)
next
  fix played out1
  assume a: "playSound3D h fname (x, y, z) volume pitch min_dist max_dist loop out
    = (Inr played, out1)"
  let ?o1 = "snd (throwALerror out)"
  let ?src = "last (mFreeSources ?o1)"
  let ?o2 = "?o1\<lparr>mFreeSources := butlast (mFreeSources ?o1)\<rparr>"
  obtain r3 o3 where t: "playSound_try h fname ?src ?o2 = (r3, o3)"
    by (cases "playSound_try h fname ?src ?o2")
  from a t obtain s3 where r3: "r3 = Inr s3"
    by (cases r3) (auto simp: playSound3D_def Let_def split: sum.splits prod.splits if_splits)
  let ?o4 = "alSourcei ?src AL_LOOPING (if loop then AL_TRUE else AL_FALSE)
               (alSourcei ?src AL_SOURCE_RELATIVE AL_FALSE
               (alSourcef ?src AL_PITCH pitch
               (alSourcef ?src AL_GAIN volume
               (alSourcef ?src AL_ROLLOFF_FACTOR 1
               (alSourcef ?src AL_MAX_DISTANCE max_dist
               (alSourcef ?src AL_REFERENCE_DISTANCE min_dist
               (alSource3f ?src AL_VELOCITY 0 0 0
               (alSource3f ?src AL_DIRECTION 0 0 0
               (alSource3f ?src AL_POSITION x z (- y) o3)))))))))"
  from a t r3 have st: "playSound_start s3 ?o4 = (Inr played, out1)"
    by (auto simp: playSound3D_def Let_def split: sum.splits prod.splits if_splits)
  from playSound_try_source t r3 have "mSource_Sound s3 = ?src"
    by blast
  moreover have "source3f (sources ?o4 ?src) AL_POSITION = (x, z, - y)"
    by (simp add: alSourcei_def alSourcef_def alSource3f_def on_source_def)
  ultimately show "source3f (sources out1 (mSource_Sound played)) AL_POSITION = (x, z, - y)"
    using playSound_start_position [OF st, of ?src] by simp
next
  fix streamed out1
  assume a: "streamSound3D h this fname (x, y, z) volume pitch min_dist max_dist out
    = (Inr streamed, out1)"
  let ?o1 = "snd (throwALerror out)"
  let ?src = "last (mFreeSources ?o1)"
  let ?o2 = "?o1\<lparr>mFreeSources := butlast (mFreeSources ?o1)\<rparr>"
  obtain r3 o3 where t: "streamSound_try h fname ?src ?o2 = (r3, o3)"
    by (cases "streamSound_try h fname ?src ?o2")
  from a t obtain s3 where r3: "r3 = Inr s3"
    by (cases r3) (auto simp: streamSound3D_def Let_def split: sum.splits prod.splits if_splits)
  let ?o4 = "alSourcei ?src AL_LOOPING AL_FALSE
               (alSourcei ?src AL_SOURCE_RELATIVE AL_FALSE
               (alSourcef ?src AL_PITCH pitch
               (alSourcef ?src AL_GAIN volume
               (alSourcef ?src AL_ROLLOFF_FACTOR 1
               (alSourcef ?src AL_MAX_DISTANCE max_dist
               (alSourcef ?src AL_REFERENCE_DISTANCE min_dist
               (alSource3f ?src AL_VELOCITY 0 0 0
               (alSource3f ?src AL_DIRECTION 0 0 0
               (alSource3f ?src AL_POSITION x z (- y) o3)))))))))"
  from a t r3 have st: "streamSound_start this s3 ?o4 = (Inr streamed, out1)"
    by (auto simp: streamSound3D_def Let_def split: sum.splits prod.splits if_splits)
  from streamSound_try_source t r3 have "mSource s3 = ?src"
    by blast
  moreover have "source3f (sources ?o4 ?src) AL_POSITION = (x, z, - y)"
    by (simp add: alSourcei_def alSourcef_def alSource3f_def on_source_def)
  ultimately show "source3f (sources out1 (mSource streamed)) AL_POSITION = (x, z, - y)"
    using streamSound_start_position [OF st, of ?src] by simp
qed

lemma LoadBuffer_read_all:
  "length data < sz \<Longrightarrow>
     fst (LoadBuffer_read sz data d) = data @ drop (dec_pos d) (dec_data d)"
proof (induction sz data d rule: LoadBuffer_read.induct)
  case (1 sz data decoder)
  let ?rest = "drop (dec_pos decoder) (dec_data decoder)"
  let ?got = "take (sz - length data) ?rest"
  let ?d1 = "snd (dec_read (sz - length data) decoder)"
  have r: "dec_read (sz - length data) decoder = (?got, ?d1)"
    by (simp add: dec_read_def Let_def)
  have unfold: "LoadBuffer_read sz data decoder =
      (if 0 < length ?got
       then LoadBuffer_read ((length data + length ?got) * 2) (data @ ?got) ?d1
       else (data, ?d1))"
    by (subst LoadBuffer_read.simps) (simp add: dec_read_def Let_def)
  show ?case
  proof (cases "?got = []")
    case True
    with "1.prems" have "?rest = []"
      by (auto simp: take_eq_Nil)
    with True unfold show ?thesis
      by simp
  next
    case False
    then have pos: "0 < length ?got"
      by simp
    have "length (data @ ?got) < (length data + length ?got) * 2"
      using pos by simp
    from "1.IH" [OF r [symmetric] refl pos this]
    have "fst (LoadBuffer_read ((length data + length ?got) * 2) (data @ ?got) ?d1)
        = (data @ ?got) @ drop (dec_pos ?d1) (dec_data ?d1)" .
    moreover have "drop (dec_pos ?d1) (dec_data ?d1) = drop (sz - length data) ?rest"
      by (simp add: dec_read_def Let_def min_def add.commute)
    moreover have "?got @ drop (sz - length data) ?rest = ?rest"
      by (rule append_take_drop_id)
    ultimately
    have "fst (LoadBuffer_read ((length data + length ?got) * 2) (data @ ?got) ?d1)
        = data @ ?rest"
      by (simp del: drop_drop)
    with unfold pos show ?thesis
      by simp
  qed
qed

text \<open>When the library reports no error and the decoder's format is in the table, streaming starts.\<close>

lemma OpenAL_SoundStream_new_ok:
  assumes "al_errors out = []" and "dec_info decoder = Inr (srate, chans, type)"
    and "getALFormat h chans type = Inr format"
  shows "\<exists>sound out1. OpenAL_SoundStream_new h src decoder out = (Inr sound, out1) \<and>
           al_errors out1 = []"
proof -
  have "al_errors (snd (alGenBuffers sNumBuffers out)) = []"
    using assms(1) by (simp add: alGenBuffers_def Let_def)
  then show ?thesis
    using assms
    by (simp add: OpenAL_SoundStream_new_def throwALerror_ok dec_getInfo_def split_beta)
qed

lemma streamSound_start_ok:
  assumes "al_errors out = []"
  shows "\<exists>sound1 out1. streamSound_start this sound out = (Inr sound1, out1)"
proof -
  from play_ok [OF assms] obtain sound1 out1 where "play this sound out = (Inr (), sound1, out1)"
    by blast
  with assms show ?thesis
    by (simp add: streamSound_start_def throwALerror_ok)
qed

lemma streamSound3D_ok:
  assumes "al_errors out = []" and "mFreeSources out \<noteq> []" and "mManager out fname = Inr decoder"
    and "dec_info decoder = Inr (srate, chans, type)" and "getALFormat h chans type = Inr format"
  shows "\<exists>sound out1.
           streamSound3D h this fname (x, y, z) volume pitch min_dist max_dist out = (Inr sound, out1)"
proof -
  let ?src = "last (mFreeSources out)"
  let ?o2 = "out\<lparr>mFreeSources := butlast (mFreeSources out)\<rparr>"
  have e2: "al_errors ?o2 = []"
    using assms(1) by simp
  from OpenAL_SoundStream_new_ok [OF e2 assms(4) assms(5), of ?src] obtain s3 o3 where
    n: "OpenAL_SoundStream_new h ?src decoder ?o2 = (Inr s3, o3)" and e3: "al_errors o3 = []"
    by blast
  from n assms(3) have t: "streamSound_try h fname ?src ?o2 = (Inr s3, o3)"
    by (simp add: streamSound_try_def)
  let ?o4 = "alSourcei ?src AL_LOOPING AL_FALSE
               (alSourcei ?src AL_SOURCE_RELATIVE AL_FALSE
               (alSourcef ?src AL_PITCH pitch
               (alSourcef ?src AL_GAIN volume
               (alSourcef ?src AL_ROLLOFF_FACTOR 1
               (alSourcef ?src AL_MAX_DISTANCE max_dist
               (alSourcef ?src AL_REFERENCE_DISTANCE min_dist
               (alSource3f ?src AL_VELOCITY 0 0 0
               (alSource3f ?src AL_DIRECTION 0 0 0
               (alSource3f ?src AL_POSITION x z (- y) o3)))))))))"
  have "al_errors ?o4 = []"
    using e3 by (simp add: alSourcei_def alSourcef_def alSource3f_def on_source_def)
  from streamSound_start_ok [OF this, of this s3] obtain s5 o5 where
    "streamSound_start this s3 ?o4 = (Inr s5, o5)"
    by blast
  with t assms(1) assms(2) show ?thesis
    by (simp add: streamSound3D_def throwALerror_ok)
qed

text \<open>The vector \<open>(1, 2, 3)\<close> arrives as \<open>(1, 3, - 2)\<close>, on all five ways.\<close>

theorem positions_are_remapped_witness:
  "source3f (sources (snd (update stream_sound (1, 2, 3) (two_voices nine_bytes))) 7) AL_POSITION
     = (1, 3, - 2) \<and>
   source3f (sources (snd (OpenAL_Sound_update \<lparr>mSource_Sound = 8, mBuffer = 1\<rparr> (1, 2, 3)
       (two_voices nine_bytes))) 8) AL_POSITION
     = (1, 3, - 2) \<and>
   listener3f (snd (updateListener (1, 2, 3) (0, 1, 0) (0, 0, 1) (two_voices nine_bytes)))
       AL_POSITION
     = (1, 3, - 2) \<and>
   listenerfv (snd (updateListener (1, 2, 3) (0, 1, 0) (0, 0, 1) (two_voices nine_bytes)))
       AL_ORIENTATION
     = [0, 0, - 1, 0, 1, 0] \<and>
   fst (playSound3D example_hpp ''sound'' (1, 2, 3) 1 1 1 100 False (two_voices nine_bytes))
     = Inr \<lparr>mSource_Sound = 8, mBuffer = 8\<rparr> \<and>
   source3f (sources (snd (playSound3D example_hpp ''sound'' (1, 2, 3) 1 1 1 100 False
       (two_voices nine_bytes))) 8) AL_POSITION
     = (1, 3, - 2) \<and>
   (\<exists>streamed. fst (streamSound3D example_hpp 0 ''sound'' (1, 2, 3) 1 1 1 100
       (two_voices nine_bytes)) = Inr streamed \<and> mSource streamed = 8) \<and>
   source3f (sources (snd (streamSound3D example_hpp 0 ''sound'' (1, 2, 3) 1 1 1 100
       (two_voices nine_bytes))) 8) AL_POSITION
     = (1, 3, - 2)"
proof -
  let ?played = "playSound3D example_hpp ''sound'' (1, 2, 3) 1 1 1 100 False
    (two_voices nine_bytes)"
  let ?streamed = "streamSound3D example_hpp 0 ''sound'' (1, 2, 3) 1 1 1 100
    (two_voices nine_bytes)"
  have p: "fst ?played = Inr \<lparr>mSource_Sound = 8, mBuffer = 8\<rparr>"
    by (simp add: playSound3D_def playSound_try_def playSound_start_def LoadBuffer_def
        LoadBuffer_read_all getALFormat_def fmtlist_def split_beta
        dec_getInfo_def al_defs state_defs Let_def)
  then have p': "?played = (Inr \<lparr>mSource_Sound = 8, mBuffer = 8\<rparr>, snd ?played)"
    by (simp add: prod_eq_iff)
  have "\<exists>sound out1. ?streamed = (Inr sound, out1)"
    by (rule streamSound3D_ok [where decoder = nine_bytes and format = AL_FORMAT_MONO8
          and srate = 32 and chans = ChannelConfig_Mono and type = SampleType_UInt8])
       (simp_all add: state_defs getALFormat_def fmtlist_def)
  then obtain streamed out1 where s: "?streamed = (Inr streamed, out1)"
    by blast
  have src: "mSource streamed = 8"
  proof -
    have "mSource streamed = last (mFreeSources (two_voices nine_bytes))"
      using s
      by (auto simp: streamSound3D_def throwALerror_ok state_defs Let_def
          split: prod.splits sum.splits
          dest!: streamSound_try_source streamSound_start_position)
    then show ?thesis
      by (simp add: state_defs)
  qed
  note inst = positions_are_remapped [where sound = stream_sound and x = 1 and y = 2 and z = 3
      and out = "two_voices nine_bytes" and oneshot = "\<lparr>mSource_Sound = 8, mBuffer = 1\<rparr>"
      and ax = 0 and ay = 1 and az = 0 and ux = 0 and uy = 0 and uz = 1 and h = example_hpp
      and fname = "''sound''" and volume = 1 and pitch = 1 and min_dist = 1 and max_dist = 100
      and loop = False and this = 0]
  have "mSource stream_sound = 7"
    by (simp add: stream_sound_def)
  with inst
  have "source3f (sources (snd (update stream_sound (1, 2, 3) (two_voices nine_bytes))) 7)
        AL_POSITION = (1, 3, - 2)"
    by simp
  moreover from inst
  have "source3f (sources (snd (OpenAL_Sound_update \<lparr>mSource_Sound = 8, mBuffer = 1\<rparr>
        (1, 2, 3) (two_voices nine_bytes))) 8) AL_POSITION = (1, 3, - 2)"
    by simp
  moreover from inst
  have "listener3f (snd (updateListener (1, 2, 3) (0, 1, 0) (0, 0, 1) (two_voices nine_bytes)))
        AL_POSITION = (1, 3, - 2)"
    by blast
  moreover from inst
  have "listenerfv (snd (updateListener (1, 2, 3) (0, 1, 0) (0, 0, 1) (two_voices nine_bytes)))
        AL_ORIENTATION = [0, 0, - 1, 0, 1, 0]"
    by simp
  moreover from inst p'
  have "source3f (sources (snd ?played) (mSource_Sound \<lparr>mSource_Sound = 8, mBuffer = 8\<rparr>))
        AL_POSITION = (1, 3, - 2)"
    by blast
  moreover from inst s
  have "source3f (sources out1 (mSource streamed)) AL_POSITION = (1, 3, - 2)"
    by blast
  ultimately show ?thesis
    using p s src by simp
qed

subsection \<open>Where play reads from\<close>

lemma read_after_read:
  "take bs (drop (pos + (min (length data - pos) bs + k)) data)
     = take bs (drop (pos + (bs + k)) data)"
proof (cases "pos + bs \<le> length data")
  case True
  then show ?thesis by (simp add: min_def)
next
  case False
  then have "drop (pos + (bs + k)) data = []"
    by simp
  moreover have "drop (pos + (min (length data - pos) bs + k)) data = []"
    using False by (auto simp: min_def)
  ultimately show ?thesis by simp
qed

lemma play_fill_data:
  "play_fill bufs sound out = (sound1, out1) \<Longrightarrow> distinct bufs \<Longrightarrow>
   \<forall>b \<in> set bufs. buffers out b \<noteq> None \<Longrightarrow>
     (\<forall>i < length bufs.
        buffers out1 (bufs ! i) =
          Some \<lparr>buf_format = mFormat sound,
                buf_data = take (mBufferSize sound)
                  (drop (dec_pos (mDecoder sound) + i * mBufferSize sound)
                     (dec_data (mDecoder sound))),
                buf_freq = mSampleRate sound\<rparr>) \<and>
     (\<forall>b. b \<notin> set bufs \<longrightarrow> buffers out1 b = buffers out b) \<and>
     dec_data (mDecoder sound1) = dec_data (mDecoder sound) \<and>
     dec_calls (mDecoder sound1) =
       dec_calls (mDecoder sound) @ replicate (length bufs) (Read (mBufferSize sound)) \<and>
     dec_pos (mDecoder sound) \<le> dec_pos (mDecoder sound1)"
proof (induction bufs arbitrary: sound out)
  case Nil
  then show ?case by simp
next
  case (Cons b bufs)
  let ?bs = "mBufferSize sound"
  let ?pos = "dec_pos (mDecoder sound)"
  let ?data = "dec_data (mDecoder sound)"
  let ?got = "take ?bs (drop ?pos ?data)"
  let ?d1 = "(mDecoder sound)\<lparr>dec_pos := ?pos + length ?got,
                               dec_calls := dec_calls (mDecoder sound) @ [Read ?bs]\<rparr>"
  let ?sound' = "sound\<lparr>mDecoder := ?d1\<rparr>"
  let ?out' = "alBufferData b (mFormat sound) ?got (mSampleRate sound) out"
  from Cons.prems(1) have rec: "play_fill bufs ?sound' ?out' = (sound1, out1)"
    by (simp add: dec_read_def Let_def)
  from Cons.prems(2) have d: "distinct bufs" and nb: "b \<notin> set bufs"
    by simp_all
  from Cons.prems(3) have ex: "\<forall>b' \<in> set bufs. buffers ?out' b' \<noteq> None"
    by (simp add: alBufferData_def)
  from Cons.prems(3) have here: "buffers ?out' b =
      Some \<lparr>buf_format = mFormat sound, buf_data = ?got, buf_freq = mSampleRate sound\<rparr>"
    by (simp add: alBufferData_def)
  have other: "b' \<noteq> b \<Longrightarrow> buffers ?out' b' = buffers out b'" for b'
    by (simp add: alBufferData_def)
  note IH = Cons.IH [OF rec d ex]
  have "buffers out1 ((b # bufs) ! i) =
          Some \<lparr>buf_format = mFormat sound,
                buf_data = take ?bs (drop (?pos + i * ?bs) ?data),
                buf_freq = mSampleRate sound\<rparr>" if "i < length (b # bufs)" for i
  proof (cases i)
    case 0
    with IH nb here show ?thesis by simp
  next
    case (Suc j)
    with that have "j < length bufs"
      by simp
    with IH have "buffers out1 (bufs ! j) =
        Some \<lparr>buf_format = mFormat sound,
              buf_data = take ?bs (drop (?pos + (min (length ?data - ?pos) ?bs + j * ?bs)) ?data),
              buf_freq = mSampleRate sound\<rparr>"
      by (simp add: add.assoc)
    moreover have "take ?bs (drop (?pos + (min (length ?data - ?pos) ?bs + j * ?bs)) ?data)
        = take ?bs (drop (?pos + (?bs + j * ?bs)) ?data)"
      by (rule read_after_read)
    ultimately show ?thesis
      using Suc by (simp add: add.assoc)
  qed
  moreover have "\<forall>b'. b' \<notin> set (b # bufs) \<longrightarrow> buffers out1 b' = buffers out b'"
    using IH other by simp
  moreover have "dec_data (mDecoder sound1) = ?data"
    using IH by simp
  moreover have "dec_calls (mDecoder sound1) =
      dec_calls (mDecoder sound) @ replicate (length (b # bufs)) (Read ?bs)"
    using IH by (simp add: replicate_append_same)
  moreover have "?pos \<le> dec_pos (mDecoder sound1)"
    using IH by simp
  ultimately show ?case
    by blast
qed

lemma play_fill_calls:
  "play_fill bufs sound out = (sound1, out1) \<Longrightarrow>
     rewinds (mDecoder sound1) = rewinds (mDecoder sound) \<and>
     dec_pos (mDecoder sound) \<le> dec_pos (mDecoder sound1)"
proof (induction bufs arbitrary: sound out)
  case Nil
  then show ?case by simp
next
  case (Cons b bufs)
  let ?sound' = "sound\<lparr>mDecoder := snd (dec_read (mBufferSize sound) (mDecoder sound))\<rparr>"
  from Cons.prems obtain out' where "play_fill bufs ?sound' out' = (sound1, out1)"
    by (auto simp: split_beta Let_def)
  from Cons.IH [OF this] show ?case
    by (simp add: dec_read_def rewinds_def Let_def)
qed

lemma play_rewinds:
  "rewinds (mDecoder (fst (snd (play this sound out)))) = rewinds (mDecoder sound) \<and>
   dec_pos (mDecoder sound) \<le> dec_pos (mDecoder (fst (snd (play this sound out))))"
proof -
  let ?out3 = "snd (throwALerror
    (alSourcei_AL_BUFFER (mSource sound) 0 (alSourceStop (mSource sound) out)))"
  obtain sf out4 where fill: "play_fill (mBuffers sound) sound ?out3 = (sf, out4)"
    by (cases "play_fill (mBuffers sound) sound ?out3")
  from play_fill_calls [OF fill] fill show ?thesis
    by (auto simp: play_def Let_def split: prod.splits sum.splits)
qed

lemma process_buffer_rewinds:
  "rewinds (mDecoder (fst (process_buffer sound out))) = rewinds (mDecoder sound)"
  by (simp add: process_buffer_def dec_read_def rewinds_def split_beta Let_def)

lemma process_loop_rewinds:
  "rewinds (mDecoder (fst (process_loop n sound out))) = rewinds (mDecoder sound)"
proof (induction n arbitrary: sound out)
  case 0
  then show ?case by simp
next
  case (Suc n)
  have "rewinds (mDecoder (fst (process_loop (Suc n) sound out)))
      = rewinds (mDecoder (fst (process_buffer sound out)))"
    by (simp add: split_beta Suc.IH)
  then show ?case
    by (simp add: process_buffer_rewinds)
qed

lemma process_rewinds:
  "rewinds (mDecoder (fst (snd (process sound out)))) = rewinds (mDecoder sound)"
proof -
  have "rewinds (mDecoder (fst (snd (process_refill n sound out1)))) = rewinds (mDecoder sound)"
    for n out1
    by (simp add: process_refill_def split_beta process_loop_rewinds)
  then show ?thesis
    by (simp add: process_def Let_def split_beta split: sum.splits)
qed

lemma play_data:
  assumes ok: "al_errors out = []" and d: "distinct (mBuffers sound)"
    and ex: "\<forall>b \<in> set (mBuffers sound). buffers out b \<noteq> None"
  shows "\<exists>sound1 out1. play this sound out = (Inr (), sound1, out1) \<and>
           (\<forall>i < length (mBuffers sound).
              map_option buf_data (buffers out1 (mBuffers sound ! i)) =
                Some (take (mBufferSize sound)
                  (drop (dec_pos (mDecoder sound) + i * mBufferSize sound)
                     (dec_data (mDecoder sound))))) \<and>
           dec_calls (mDecoder sound1) =
             dec_calls (mDecoder sound) @
               replicate (length (mBuffers sound)) (Read (mBufferSize sound))"
proof -
  let ?out2 = "alSourcei_AL_BUFFER (mSource sound) 0 (alSourceStop (mSource sound) out)"
  have e2: "al_errors ?out2 = []" and b2: "buffers ?out2 = buffers out"
    using ok by (simp_all add: alSourcei_AL_BUFFER_def alSourceStop_def on_source_def)
  obtain sf out4 where fill: "play_fill (mBuffers sound) sound ?out2 = (sf, out4)"
    by (cases "play_fill (mBuffers sound) sound ?out2")
  from play_fill_frame [OF fill] e2 have e4: "al_errors out4 = []"
    by simp
  let ?out7 = "alSourcePlay (mSource sf) (alSourceQueueBuffers (mSource sf) (mBuffers sf) out4)"
  have e7: "al_errors ?out7 = []" and b7: "buffers ?out7 = buffers out4"
    using e4 by (simp_all add: alSourcePlay_def alSourceQueueBuffers_def on_source_def)
  have p: "play this sound out = (Inr (), sf\<lparr>mIsFinished := False\<rparr>, StreamThread_add this ?out7)"
    using e2 fill e4 e7 by (simp add: play_def Let_def throwALerror_ok)
  from ex b2 have ex2: "\<forall>b \<in> set (mBuffers sound). buffers ?out2 b \<noteq> None"
    by simp
  note data = play_fill_data [OF fill d ex2]
  have "\<forall>i < length (mBuffers sound).
      map_option buf_data (buffers (StreamThread_add this ?out7) (mBuffers sound ! i)) =
        Some (take (mBufferSize sound)
          (drop (dec_pos (mDecoder sound) + i * mBufferSize sound) (dec_data (mDecoder sound))))"
    using data b7 by (simp add: StreamThread_add_def)
  moreover have "dec_calls (mDecoder (sf\<lparr>mIsFinished := False\<rparr>)) =
      dec_calls (mDecoder sound) @ replicate (length (mBuffers sound)) (Read (mBufferSize sound))"
    using data by simp
  ultimately show ?thesis
    using p by blast
qed

lemma stop_ok:
  assumes "al_errors out = []"
  shows "stop this sound out =
           (Inr (), sound\<lparr>mIsFinished := True, mDecoder := dec_rewind (mDecoder sound)\<rparr>,
            alSourcei_AL_BUFFER (mSource sound) 0
              (alSourceStop (mSource sound) (StreamThread_remove this out)))"
proof -
  have "al_errors (alSourcei_AL_BUFFER (mSource sound) 0
      (alSourceStop (mSource sound) (StreamThread_remove this out))) = []"
    using assms
    by (simp add: alSourcei_AL_BUFFER_def alSourceStop_def on_source_def StreamThread_remove_def)
  then show ?thesis
    by (simp add: stop_def Let_def throwALerror_ok)
qed

text \<open>
  C10: \<open>play\<close> never rewinds the decoder, whatever the library reports, and leaves the read
  position where it was or further on; neither do \<open>process\<close> and the destructor. With no
  error of the library to report and six distinct buffers, \<open>play\<close> returns with the
  \<open>i\<close>-th buffer holding the bytes of the stream from the position the decoder was at,
  plus \<open>i\<close> buffer sizes, after six reads of the decoder. \<open>stop\<close>, with no error to
  report, rewinds: the position is 0 afterwards.
\<close>

theorem play_reads_on_from_the_current_position:
  "rewinds (mDecoder (fst (snd (play this sound out)))) = rewinds (mDecoder sound) \<and>
   dec_pos (mDecoder sound) \<le> dec_pos (mDecoder (fst (snd (play this sound out)))) \<and>
   rewinds (mDecoder (fst (snd (process sound out)))) = rewinds (mDecoder sound) \<and>
   rewinds (mDecoder (fst (OpenAL_SoundStream_delete this sound out))) = rewinds (mDecoder sound) \<and>
   (al_errors out = [] \<and> distinct (mBuffers sound) \<and> length (mBuffers sound) = sNumBuffers \<and>
    (\<forall>b \<in> set (mBuffers sound). buffers out b \<noteq> None) \<longrightarrow>
      (\<exists>sound1 out1. play this sound out = (Inr (), sound1, out1) \<and>
         (\<forall>i < sNumBuffers.
            map_option buf_data (buffers out1 (mBuffers sound ! i)) =
              Some (take (mBufferSize sound)
                (drop (dec_pos (mDecoder sound) + i * mBufferSize sound)
                   (dec_data (mDecoder sound))))) \<and>
         dec_calls (mDecoder sound1) =
           dec_calls (mDecoder sound) @ replicate sNumBuffers (Read (mBufferSize sound)))) \<and>
   (al_errors out = [] \<longrightarrow>
      (\<exists>sound2 out2. stop this sound out = (Inr (), sound2, out2) \<and>
         dec_pos (mDecoder sound2) = 0 \<and>
         rewinds (mDecoder sound2) = Suc (rewinds (mDecoder sound))))"
proof (intro conjI impI)
  show "rewinds (mDecoder (fst (snd (play this sound out)))) = rewinds (mDecoder sound)"
    and "dec_pos (mDecoder sound) \<le> dec_pos (mDecoder (fst (snd (play this sound out))))"
    using play_rewinds [of this sound out] by simp_all
  show "rewinds (mDecoder (fst (snd (process sound out)))) = rewinds (mDecoder sound)"
    by (rule process_rewinds)
  show "rewinds (mDecoder (fst (OpenAL_SoundStream_delete this sound out)))
      = rewinds (mDecoder sound)"
    by (simp add: OpenAL_SoundStream_delete_def split_beta Let_def dec_close_def rewinds_def)
next
  assume "al_errors out = [] \<and> distinct (mBuffers sound) \<and>
    length (mBuffers sound) = sNumBuffers \<and> (\<forall>b \<in> set (mBuffers sound). buffers out b \<noteq> None)"
  then have "al_errors out = []" "distinct (mBuffers sound)"
    "\<forall>b \<in> set (mBuffers sound). buffers out b \<noteq> None" "length (mBuffers sound) = sNumBuffers"
    by simp_all
  from play_data [OF this(1-3), of this] this(4)
  show "\<exists>sound1 out1. play this sound out = (Inr (), sound1, out1) \<and>
         (\<forall>i < sNumBuffers.
            map_option buf_data (buffers out1 (mBuffers sound ! i)) =
              Some (take (mBufferSize sound)
                (drop (dec_pos (mDecoder sound) + i * mBufferSize sound)
                   (dec_data (mDecoder sound))))) \<and>
         dec_calls (mDecoder sound1) =
           dec_calls (mDecoder sound) @ replicate sNumBuffers (Read (mBufferSize sound))"
    by simp
next
  assume "al_errors out = []"
  then show "\<exists>sound2 out2. stop this sound out = (Inr (), sound2, out2) \<and>
         dec_pos (mDecoder sound2) = 0 \<and>
         rewinds (mDecoder sound2) = Suc (rewinds (mDecoder sound))"
    by (simp add: stop_ok dec_rewind_def rewinds_def)
qed

text \<open>
  The stream of nine bytes with the decoder at position 4: \<open>play\<close> fills the first
  buffers with the bytes 5 to 8, the byte 9 and nothing, and reads six times; \<open>stop\<close>
  sets the position to 0.
\<close>

theorem play_reads_on_from_the_current_position_witness:
  "al_errors idle_output = [] \<and>
   distinct (mBuffers (stream_sound\<lparr>mDecoder := nine_bytes\<lparr>dec_pos := 4\<rparr>\<rparr>)) \<and>
   length (mBuffers (stream_sound\<lparr>mDecoder := nine_bytes\<lparr>dec_pos := 4\<rparr>\<rparr>)) = sNumBuffers \<and>
   buffers idle_output 1 \<noteq> None \<and> buffers idle_output 6 \<noteq> None \<and>
   fst (play 0 (stream_sound\<lparr>mDecoder := nine_bytes\<lparr>dec_pos := 4\<rparr>\<rparr>) idle_output) = Inr () \<and>
   map_option buf_data (buffers (snd (snd
       (play 0 (stream_sound\<lparr>mDecoder := nine_bytes\<lparr>dec_pos := 4\<rparr>\<rparr>) idle_output))) 1)
     = Some [5, 6, 7, 8] \<and>
   map_option buf_data (buffers (snd (snd
       (play 0 (stream_sound\<lparr>mDecoder := nine_bytes\<lparr>dec_pos := 4\<rparr>\<rparr>) idle_output))) 2)
     = Some [9] \<and>
   map_option buf_data (buffers (snd (snd
       (play 0 (stream_sound\<lparr>mDecoder := nine_bytes\<lparr>dec_pos := 4\<rparr>\<rparr>) idle_output))) 3)
     = Some [] \<and>
   dec_calls (mDecoder (fst (snd
       (play 0 (stream_sound\<lparr>mDecoder := nine_bytes\<lparr>dec_pos := 4\<rparr>\<rparr>) idle_output))))
     = [Read 4, Read 4, Read 4, Read 4, Read 4, Read 4] \<and>
   fst (stop 0 (stream_sound\<lparr>mDecoder := nine_bytes\<lparr>dec_pos := 4\<rparr>\<rparr>) idle_output) = Inr () \<and>
   dec_pos (mDecoder (fst (snd
       (stop 0 (stream_sound\<lparr>mDecoder := nine_bytes\<lparr>dec_pos := 4\<rparr>\<rparr>) idle_output)))) = 0"
proof -
  let ?sound = "stream_sound\<lparr>mDecoder := nine_bytes\<lparr>dec_pos := 4\<rparr>\<rparr>"
  have h: "al_errors idle_output = []" "distinct (mBuffers ?sound)"
    "length (mBuffers ?sound) = sNumBuffers" "\<forall>b \<in> set (mBuffers ?sound). buffers idle_output b \<noteq> None"
    by (simp_all add: state_defs sNumBuffers_def)
  from play_reads_on_from_the_current_position [of 0 ?sound idle_output] h
  obtain sound1 out1 sound2 out2 where
    p: "play 0 ?sound idle_output = (Inr (), sound1, out1)"
    and b: "\<forall>i < sNumBuffers.
            map_option buf_data (buffers out1 (mBuffers ?sound ! i)) =
              Some (take (mBufferSize ?sound)
                (drop (dec_pos (mDecoder ?sound) + i * mBufferSize ?sound)
                   (dec_data (mDecoder ?sound))))"
    and c: "dec_calls (mDecoder sound1) =
           dec_calls (mDecoder ?sound) @ replicate sNumBuffers (Read (mBufferSize ?sound))"
    and s: "stop 0 ?sound idle_output = (Inr (), sound2, out2)"
    and z: "dec_pos (mDecoder sound2) = 0"
    by blast
  have "map_option buf_data (buffers out1 1) = Some [5, 6, 7, 8]"
    using b [rule_format, of 0] by (simp add: state_defs sNumBuffers_def)
  moreover have "map_option buf_data (buffers out1 2) = Some [9]"
    using b [rule_format, of 1] by (simp add: state_defs sNumBuffers_def)
  moreover have "map_option buf_data (buffers out1 3) = Some []"
    using b [rule_format, of 2] by (simp add: state_defs sNumBuffers_def)
  moreover from c have "dec_calls (mDecoder sound1)
      = [Read 4, Read 4, Read 4, Read 4, Read 4, Read 4]"
    by (simp add: state_defs sNumBuffers_def numeral_eq_Suc)
  ultimately show ?thesis
    using p s z h by (simp add: state_defs sNumBuffers_def)
qed

subsection \<open>Populating the voice pool\<close>

lemma voices_made_simps:
  "voices_made 0 errs = 0"
  "voices_made count [] = count"
  "voices_made (Suc count) (e # errs) = (if e = AL_NO_ERROR then Suc (voices_made count errs) else 0)"
  by (simp_all add: voices_made_def Let_def)

lemma voices_made_le: "voices_made count errs \<le> count"
  by (simp add: voices_made_def Let_def)

lemma init_sources_made:
  "length (mFreeSources out) - i = d \<Longrightarrow> i \<le> length (mFreeSources out) \<Longrightarrow>
     mFreeSources (init_sources i out) =
       take i (mFreeSources out) @
         [generated out + 1 ..< generated out + 1 + voices_made d (al_errors out)] \<and>
     generated (init_sources i out) =
       generated out + voices_made d (al_errors out) +
         (if voices_made d (al_errors out) < d then 1 else 0)"
proof (induction d arbitrary: i out)
  case 0
  then have "init_sources i out = out"
    by (subst init_sources.simps) simp
  with 0 show ?case
    by (simp add: voices_made_simps)
next
  case (Suc d)
  then have less: "i < length (mFreeSources out)"
    by simp
  let ?g = "generated out"
  let ?out1 = "snd (alGenSources out)"
  have g1: "fst (alGenSources out) = ?g + 1" "generated ?out1 = ?g + 1"
    "mFreeSources ?out1 = mFreeSources out" "al_errors ?out1 = al_errors out"
    by (simp_all add: alGenSources_def on_source_def Let_def)
  show ?case
  proof (cases "fst (alGetError ?out1) = AL_NO_ERROR")
    case False
    then obtain e errs where errs: "al_errors out = e # errs" "e \<noteq> AL_NO_ERROR"
      using g1(4) by (auto simp: alGetError_def split: list.splits)
    with g1 have "init_sources i out =
        (snd (alGetError ?out1))\<lparr>mFreeSources := resize i (mFreeSources out)\<rparr>"
      using less by (subst init_sources.simps) (simp add: split_beta alGetError_def)
    with errs less g1 show ?thesis
      by (simp add: voices_made_simps resize_def alGetError_def)
  next
    case True
    let ?out2 = "(snd (alGetError ?out1))\<lparr>mFreeSources := (mFreeSources out)[i := ?g + 1]\<rparr>"
    from True g1 less have step: "init_sources i out = init_sources (Suc i) ?out2"
      by (subst init_sources.simps) (simp add: split_beta alGetError_def split: list.splits)
    have len: "length (mFreeSources ?out2) - Suc i = d" "Suc i \<le> length (mFreeSources ?out2)"
      using Suc.prems by simp_all
    have g2: "generated ?out2 = ?g + 1"
      using g1 by (simp add: alGetError_def split: list.splits)
    have made: "voices_made (Suc d) (al_errors out) = Suc (voices_made d (al_errors ?out2))"
      using True g1(4)
      by (cases "al_errors out") (simp_all add: voices_made_simps alGetError_def)
    define m where "m = voices_made d (al_errors ?out2)"
    from Suc.IH [OF len] g2
    have pool: "mFreeSources (init_sources (Suc i) ?out2) =
        take (Suc i) (mFreeSources ?out2) @ [?g + 1 + 1 ..< ?g + 1 + 1 + m]"
      and gen: "generated (init_sources (Suc i) ?out2) = ?g + 1 + m + (if m < d then 1 else 0)"
      by (simp_all only: m_def)
    have "take (Suc i) (mFreeSources ?out2) = take i (mFreeSources out) @ [?g + 1]"
      using less by (simp add: take_Suc_conv_app_nth)
    moreover have "[?g + 1] @ [?g + 1 + 1 ..< ?g + 1 + 1 + m] = [?g + 1 ..< ?g + 1 + Suc m]"
      by (simp del: upt_Suc add: upt_conv_Cons)
    ultimately have "mFreeSources (init_sources (Suc i) ?out2) =
        take i (mFreeSources out) @ [?g + 1 ..< ?g + 1 + Suc m]"
      using pool by (simp only: append_assoc)
    moreover have "generated (init_sources (Suc i) ?out2) =
        ?g + Suc m + (if Suc m < Suc d then 1 else 0)"
      using gen by simp
    ultimately show ?thesis
      unfolding step made m_def [symmetric] by blast
  qed
qed

lemma sint_sources_sum:
  fixes a b :: "32 word"
  assumes "0 \<le> sint a" and "0 \<le> sint b" and "sint a + sint b < 2 ^ 31"
  shows "sint (a + b) = sint a + sint b"
  using assms by (simp add: sint_word_add signed_take_bit_int_eq_self)

text \<open>
  C7: when \<open>init\<close> gets as far as the pool (device and context are set up, no error is
  pending) and the device reports counts that are not negative and whose sum does not
  overflow, the pool ends as exactly the voices created before the first failed creation,
  at most \<open>min (maxmono + maxstereo) 256\<close> of them; no creation is tried after a failed
  one; and \<open>init\<close> throws exactly if that number of voices is 0.
\<close>

theorem init_populates_voice_pool:
  assumes "mDevice out = None" and "\<not> mContext out"
    and "alcOpenDevice devname = Some dev"
    and "alc_create_context dev" and "alc_make_current dev" and "alc_errors dev = []"
    and "al_errors out = AL_NO_ERROR # errs"
    and "0 \<le> sint (alc_mono_sources dev)" and "0 \<le> sint (alc_stereo_sources dev)"
    and "sint (alc_mono_sources dev) + sint (alc_stereo_sources dev) < 2 ^ 31"
    and "count = nat (min (sint (alc_mono_sources dev) + sint (alc_stereo_sources dev)) 256)"
    and "made = voices_made count errs"
    and "init alcOpenDevice devname out = (r, out1)"
  shows "mFreeSources out1 = [generated out + 1 ..< generated out + 1 + made] \<and>
         made \<le> count \<and>
         generated out1 = generated out + made + (if made < count then 1 else 0) \<and>
         r = (if made = 0 then Inl (fail ''Could not allocate any sources'') else Inr ())"
proof -
  let ?sum = "alc_mono_sources dev + alc_stereo_sources dev"
  let ?c = "if (256 :: 32 word) <s ?sum then 256 else ?sum"
  have sum: "sint ?sum = sint (alc_mono_sources dev) + sint (alc_stereo_sources dev)"
    using assms(8-10) by (rule sint_sources_sum)
  have c: "sint ?c = min (sint (alc_mono_sources dev) + sint (alc_stereo_sources dev)) 256"
    using sum by (simp add: word_sless_alt min_def)
  with assms(8,9,11) have nonneg: "\<not> sint ?c < 0" and cnt: "nat (sint ?c) = count"
    by simp_all
  obtain out3 where t: "throwALerror (alDistanceModel AL_LINEAR_DISTANCE_CLAMPED
        (out\<lparr>mDevice := Some dev, mContext := alc_create_context dev\<rparr>)) = (Inr (), out3)"
    and e3: "al_errors out3 = errs" and g3: "generated out3 = generated out"
    using assms(7) by (simp add: throwALerror_def alGetError_def alDistanceModel_def)
  let ?out5 = "out3\<lparr>mDevice := Some dev, mFreeSources := resize count (mFreeSources out3)\<rparr>"
  have tc: "throwALCerror dev = (Inr (), dev)"
    using assms(6) by (simp add: throwALCerror_def alcGetError_def)
  have i: "init alcOpenDevice devname out =
      (if length (mFreeSources (init_sources 0 ?out5)) = 0
       then (Inl (fail ''Could not allocate any sources''), init_sources 0 ?out5)
       else (Inr (), init_sources 0 ?out5))"
    using assms(1-5) t tc nonneg cnt by (simp add: init_def Let_def)
  have len: "length (mFreeSources ?out5) - 0 = count" "0 \<le> length (mFreeSources ?out5)"
    by (simp_all add: resize_def)
  from init_sources_made [OF len] assms(12) e3 g3
  have pool: "mFreeSources (init_sources 0 ?out5) = [generated out + 1 ..< generated out + 1 + made]"
    and gen: "generated (init_sources 0 ?out5) =
      generated out + made + (if made < count then 1 else 0)"
    by simp_all
  from assms(12) have "made \<le> count"
    by (simp add: voices_made_le)
  with i pool gen assms(13) show ?thesis
    by (auto split: if_splits)
qed

text \<open>
  A device that reports 3 mono and 1 stereo voices, where the third creation fails: the
  pool holds the two voices created before, and \<open>init\<close> returns.
\<close>

theorem init_populates_voice_pool_witness:
  "mDevice closed_output = None \<and> \<not> mContext closed_output \<and>
   alc_create_context four_voice_device \<and> alc_make_current four_voice_device \<and>
   alc_errors four_voice_device = [] \<and>
   al_errors closed_output = [AL_NO_ERROR, AL_NO_ERROR, AL_NO_ERROR, 40965] \<and>
   sint (alc_mono_sources four_voice_device) = 3 \<and>
   sint (alc_stereo_sources four_voice_device) = 1 \<and>
   voices_made 4 [AL_NO_ERROR, AL_NO_ERROR, 40965] = 2 \<and>
   fst (init (\<lambda>_. Some four_voice_device) ''default'' closed_output) = Inr () \<and>
   mFreeSources (snd (init (\<lambda>_. Some four_voice_device) ''default'' closed_output)) = [8, 9]"
proof -
  have h: "mDevice closed_output = None" "\<not> mContext closed_output"
    "alc_create_context four_voice_device" "alc_make_current four_voice_device"
    "alc_errors four_voice_device = []"
    "al_errors closed_output = AL_NO_ERROR # [AL_NO_ERROR, AL_NO_ERROR, 40965]"
    "sint (alc_mono_sources four_voice_device) = 3"
    "sint (alc_stereo_sources four_voice_device) = 1"
    "generated closed_output = 7"
    by (simp_all add: closed_output_def four_voice_device_def state_defs)
  have m: "voices_made 4 [AL_NO_ERROR, AL_NO_ERROR, 40965] = 2"
    by (simp add: voices_made_def)
  from init_populates_voice_pool [of closed_output "\<lambda>_. Some four_voice_device" "''default''"
      four_voice_device "[AL_NO_ERROR, AL_NO_ERROR, 40965]" 4 2
      "fst (init (\<lambda>_. Some four_voice_device) ''default'' closed_output)"
      "snd (init (\<lambda>_. Some four_voice_device) ''default'' closed_output)"] h m
  have "mFreeSources (snd (init (\<lambda>_. Some four_voice_device) ''default'' closed_output))
      = [7 + 1 ..< 7 + 1 + 2]"
    and "fst (init (\<lambda>_. Some four_voice_device) ''default'' closed_output) = Inr ()"
    by simp_all
  then show ?thesis
    using h m by (simp add: upt_rec)
qed

end
